theory Spec2Isabelle
  imports Complex_Main
begin

section \<open>Python values, exceptions and the graph object\<close>

text \<open>
  The module \<open>osmnx/plot.py\<close> draws a networkx multidigraph. Its functions receive the
  graph \<open>G\<close> by reference, read it, and build matplotlib (or folium) objects. The
  embedding keeps three things explicit:
  \<^item> every exception the Python can raise is a value of \<open>error\<close>, and a computation returns
    \<open>error + 'a\<close> (\<open>Inl\<close> is the raised exception);
  \<^item> the graph object is the state of a small state-and-exception monad \<open>prog\<close>: each
    statement of the source that touches \<open>G\<close> is a step that receives the graph and hands
    it on, so that "the graph is not mutated" is a theorem about the steps and not a
    consequence of the types;
  \<^item> Python numbers are modelled as \<open>real\<close>, and \<open>/\<close> is the true division of Python 3.
    Division is written with its zero check, since HOL's \<open>x / 0 = 0\<close> is not what Python
    does: a Python number divided by zero raises, a numpy scalar divided by zero gives
    \<open>inf\<close> or \<open>nan\<close> and the program goes on.
\<close>

datatype error =
    KeyError
  | IndexError
  | ValueError
  | ZeroDivisionError
  | TypeError
  | ImportError
  | UnnamedError


type_synonym nid = nat
type_synonym coord = "real \<times> real"

record node_data =
  node_x :: real
  node_y :: real

datatype highway_attr = Scalar string | HList "string list"

record edge_data =
  length_e :: real
  highway :: highway_attr
  geometry :: "coord list option"

text \<open>
  A networkx \<open>MultiDiGraph\<close>: \<open>G.node\<close> is a dict from node to its attribute dict, and
  \<open>G.edge\<close> is a dict of dicts of dicts, \<open>G.edge[u][v][key]\<close> being the attribute dict of one
  of the parallel edges from \<open>u\<close> to \<open>v\<close>. Dicts are association lists in iteration order.
  The attribute dicts are records: the data model gives every node its coordinates and
  every edge a numeric \<open>length\<close> and a \<open>highway\<close> value, and makes \<open>geometry\<close> optional.
\<close>

record graph =
  node :: "(nid \<times> node_data) list"
  edge :: "(nid \<times> (nid \<times> (nat \<times> edge_data) list) list) list"

definition getitem :: "('k \<times> 'v) list \<Rightarrow> 'k \<Rightarrow> error + 'v" where
  "getitem d k = (case map_of d k of None \<Rightarrow> Inl KeyError | Some v \<Rightarrow> Inr v)"

definition edges_of :: "graph \<Rightarrow> (nid \<times> nid \<times> nat \<times> edge_data) list" where
  \<comment> \<open>the order of \<open>G.edges(keys=True, data=True)\<close>: by source, by target, by key\<close>
  "edges_of G =
     concat (map (\<lambda>(u, nbrs).
       concat (map (\<lambda>(v, keydict). map (\<lambda>(key, data). (u, v, key, data)) keydict) nbrs))
       (edge G))"

text \<open>
  networkx keeps three invariants that the functions below rely on: a dict has no key
  twice, an entry \<open>G.edge[u][v]\<close> exists only while it holds at least one edge, and both
  ends of every edge are nodes.
\<close>

definition wf_graph :: "graph \<Rightarrow> bool" where
  "wf_graph G =
     (distinct (map fst (node G)) \<and>
      distinct (map fst (edge G)) \<and>
      list_all (\<lambda>(u, nbrs).
        map_of (node G) u \<noteq> None \<and>
        distinct (map fst nbrs) \<and>
        list_all (\<lambda>(v, keydict).
          map_of (node G) v \<noteq> None \<and> keydict \<noteq> [] \<and> distinct (map fst keydict)) nbrs)
        (edge G))"

subsection \<open>Computations over the graph object\<close>

type_synonym 'a prog = "graph \<Rightarrow> (error + 'a) \<times> graph"

definition preturn :: "'a \<Rightarrow> 'a prog" where
  "preturn a = (\<lambda>G. (Inr a, G))"

definition praise :: "error \<Rightarrow> 'a prog" where
  "praise e = (\<lambda>G. (Inl e, G))"

definition pbind :: "'a prog \<Rightarrow> ('a \<Rightarrow> 'b prog) \<Rightarrow> 'b prog" where
  "pbind m f = (\<lambda>G. case m G of (Inl e, G') \<Rightarrow> (Inl e, G') | (Inr a, G') \<Rightarrow> f a G')"

definition pread :: "(graph \<Rightarrow> error + 'a) \<Rightarrow> 'a prog" where
  \<comment> \<open>a read access to the graph object\<close>
  "pread r = (\<lambda>G. (r G, G))"

definition pwrite :: "(graph \<Rightarrow> graph) \<Rightarrow> unit prog" where
  \<comment> \<open>an in-place update of the graph object; no function of \<open>plot.py\<close> uses one\<close>
  "pwrite w = (\<lambda>G. (Inr (), w G))"

definition plift :: "error + 'a \<Rightarrow> 'a prog" where
  \<comment> \<open>a computation that does not touch the graph\<close>
  "plift r = (case r of Inl e \<Rightarrow> praise e | Inr a \<Rightarrow> preturn a)"

fun for_each :: "('a \<Rightarrow> 'b prog) \<Rightarrow> 'a list \<Rightarrow> 'b list prog" where
  \<comment> \<open>\<open>out = []; for x in xs: out.append(f(x))\<close>\<close>
  "for_each f [] = preturn []"
| "for_each f (x # xs) =
     pbind (f x) (\<lambda>y. pbind (for_each f xs) (\<lambda>ys. preturn (y # ys)))"

definition reads_only :: "'a prog \<Rightarrow> bool" where
  "reads_only m = (\<forall>G. snd (m G) = G)"

subsection \<open>The networkx accessors the module uses\<close>

definition G_node_values :: "node_data list prog" where
  "G_node_values = pread (\<lambda>G. Inr (map snd (node G)))"

definition G_nodes_data :: "(nid \<times> node_data) list prog" where
  "G_nodes_data = pread (\<lambda>G. Inr (node G))"

definition G_node_getitem :: "nid \<Rightarrow> node_data prog" where
  "G_node_getitem u = pread (\<lambda>G. getitem (node G) u)"

definition G_edges :: "(nid \<times> nid \<times> nat \<times> edge_data) list prog" where
  "G_edges = pread (\<lambda>G. Inr (edges_of G))"

definition G_edge_getitem :: "nid \<Rightarrow> nid \<Rightarrow> (nat \<times> edge_data) list prog" where
  \<comment> \<open>\<open>G.edge[u][v]\<close>: two dict lookups, each a \<open>KeyError\<close> when the key is absent\<close>
  "G_edge_getitem u v =
     pread (\<lambda>G. case getitem (edge G) u of
                   Inl e \<Rightarrow> Inl e
                 | Inr nbrs \<Rightarrow> getitem nbrs v)"

subsection \<open>Python built-ins\<close>

fun min_from :: "('a \<Rightarrow> real) \<Rightarrow> 'a \<Rightarrow> 'a list \<Rightarrow> 'a" where
  "min_from key best [] = best"
| "min_from key best (x # xs) = min_from key (if key x < key best then x else best) xs"

definition py_min :: "'a list \<Rightarrow> ('a \<Rightarrow> real) \<Rightarrow> error + 'a" where
  \<comment> \<open>\<open>min(xs, key=key)\<close>: the first item is kept until a strictly smaller one is met;
      \<open>ValueError\<close> on an empty sequence\<close>
  "py_min xs key = (case xs of [] \<Rightarrow> Inl ValueError | x # rest \<Rightarrow> Inr (min_from key x rest))"

definition py_first :: "'a list \<Rightarrow> error + 'a" where
  \<comment> \<open>\<open>xs[0]\<close>\<close>
  "py_first xs = (case xs of [] \<Rightarrow> Inl IndexError | x # _ \<Rightarrow> Inr x)"

definition py_last :: "'a list \<Rightarrow> error + 'a" where
  \<comment> \<open>\<open>xs[-1]\<close>\<close>
  "py_last xs = (if xs = [] then Inl IndexError else Inr (last xs))"

text \<open>
  A float is a real number or one of the three values that are not finite. Only a
  division can produce the latter here, and only a division by a numpy scalar.
\<close>

datatype pyfloat = Finite real | PosInf | NegInf | NaN

definition truediv :: "bool \<Rightarrow> real \<Rightarrow> pyfloat \<Rightarrow> error + pyfloat" where
  \<comment> \<open>\<open>a / b\<close> for a finite \<open>a\<close>. The flag says whether the operands are Python numbers,
      for which a zero divisor raises, or \<open>b\<close> is a numpy scalar, for which a zero divisor
      gives \<open>inf\<close>, \<open>-inf\<close> or \<open>nan\<close> (and a warning), and an infinite divisor gives zero\<close>
  "truediv python a b =
     (case b of
        Finite d \<Rightarrow>
          if d = 0 then
            (if python then Inl ZeroDivisionError
             else Inr (if 0 < a then PosInf else if a < 0 then NegInf else NaN))
          else Inr (Finite (a / d))
      | PosInf \<Rightarrow> Inr (Finite 0)
      | NegInf \<Rightarrow> Inr (Finite 0)
      | NaN \<Rightarrow> Inr NaN)"

section \<open>The objects that are drawn\<close>

text \<open>
  matplotlib is outside the module. What the module hands to it is recorded: an axes
  object collects the line collections, the scatter layers and the patches added to it,
  its view limits and its chrome; a figure has a size and a face colour. A new axes has
  the limits \<open>(0, 1)\<close> on both axes.
\<close>

datatype widths = Uniform real | PerLine "real list"

record line_collection =
  lc_lines :: "coord list list"
  lc_colors :: string
  lc_linewidths :: widths
  lc_alpha :: real
  lc_zorder :: int

record scatter_layer =
  sc_x :: "real list"
  sc_y :: "real list"
  sc_s :: real
  sc_c :: string
  sc_alpha :: real
  sc_edgecolor :: string
  sc_zorder :: int

record polygon_patch =
  pp_ring :: "coord list"
  pp_fc :: string
  pp_ec :: string
  pp_linewidth :: real
  pp_alpha :: real

record axes =
  ax_facecolor :: "string option"
  ax_patches :: "polygon_patch list"
  ax_collections :: "line_collection list"
  ax_scatters :: "scatter_layer list"
  ax_ylim :: "real \<times> real"
  ax_xlim :: "real \<times> real"
  ax_aspect_equal :: bool
  ax_axis_on :: bool
  ax_margins_zero :: bool
  ax_ticks_in :: bool
  ax_use_offset :: bool
  ax_fills_canvas :: bool
  ax_transparent :: bool
  ax_annotations :: "(nid \<times> coord) list"

record figure =
  fig_size :: "real \<times> real"
  fig_facecolor :: "string option"
  fig_transparent :: bool
  fig_saved :: "(string \<times> string) option"
  fig_shown :: bool
  fig_closed :: bool

definition subplots :: "pyfloat \<times> real \<Rightarrow> string option \<Rightarrow> error + (figure \<times> axes)" where
  \<comment> \<open>\<open>plt.subplots(figsize=..., facecolor=...)\<close>: matplotlib refuses a figure size that
      is negative or not finite with \<open>ValueError\<close>; a colour that is not given is
      matplotlib's default, \<open>None\<close> here\<close>
  "subplots figsize fc =
     (case fst figsize of
        Finite w \<Rightarrow>
          if w < 0 \<or> snd figsize < 0 then Inl ValueError
          else Inr
            (\<lparr>fig_size = (w, snd figsize), fig_facecolor = fc, fig_transparent = False,
              fig_saved = None, fig_shown = False, fig_closed = False\<rparr>,
             \<lparr>ax_facecolor = None, ax_patches = [], ax_collections = [], ax_scatters = [],
              ax_ylim = (0, 1), ax_xlim = (0, 1), ax_aspect_equal = False, ax_axis_on = True,
              ax_margins_zero = False, ax_ticks_in = False, ax_use_offset = True,
              ax_fills_canvas = False, ax_transparent = False, ax_annotations = []\<rparr>)
      | _ \<Rightarrow> Inl ValueError)"

definition add_collection :: "line_collection \<Rightarrow> axes \<Rightarrow> axes" where
  "add_collection lc ax = ax\<lparr>ax_collections := ax_collections ax @ [lc]\<rparr>"

definition scatter :: "scatter_layer \<Rightarrow> axes \<Rightarrow> axes" where
  "scatter sc ax = ax\<lparr>ax_scatters := ax_scatters ax @ [sc]\<rparr>"

definition add_patch :: "polygon_patch \<Rightarrow> axes \<Rightarrow> axes" where
  "add_patch p ax = ax\<lparr>ax_patches := ax_patches ax @ [p]\<rparr>"


definition nonsingular :: "real \<times> real \<Rightarrow> real \<times> real" where
  "nonsingular lo_hi =
     (let expander = 5 / 100;
          swapped = (snd lo_hi < fst lo_hi);
          vmin = (if swapped then snd lo_hi else fst lo_hi);
          vmax = (if swapped then fst lo_hi else snd lo_hi);
          maxabsvalue = max \<bar>vmin\<bar> \<bar>vmax\<bar>;
          widened =
            (if maxabsvalue < 10 ^ 21 / 2 ^ 1022 then (- expander, expander)
             else if vmax - vmin \<le> maxabsvalue / 10 ^ 15 then
               (if vmax = 0 \<and> vmin = 0 then (- expander, expander)
                else (vmin - expander * \<bar>vmin\<bar>, vmax + expander * \<bar>vmax\<bar>))
             else (vmin, vmax))
      in if swapped then (snd widened, fst widened) else widened)"

definition set_ylim :: "real \<times> real \<Rightarrow> axes \<Rightarrow> axes" where
  "set_ylim lo_hi ax = ax\<lparr>ax_ylim := nonsingular lo_hi\<rparr>"

definition set_xlim :: "real \<times> real \<Rightarrow> axes \<Rightarrow> axes" where
  "set_xlim lo_hi ax = ax\<lparr>ax_xlim := nonsingular lo_hi\<rparr>"

definition enclosing_rectangle :: "coord list \<Rightarrow> (real \<times> real \<times> real \<times> real) option" where
  \<comment> \<open>the bounds \<open>(minx, miny, maxx, maxy)\<close> of a set of points; none for no point\<close>
  "enclosing_rectangle pts =
     (case pts of
        [] \<Rightarrow> None
      | p # ps \<Rightarrow>
          Some (fold min (map fst ps) (fst p), fold min (map snd ps) (snd p),
                fold max (map fst ps) (fst p), fold max (map snd ps) (snd p)))"

definition xy :: "coord list \<Rightarrow> real list \<times> real list" where
  \<comment> \<open>the \<open>.xy\<close> of a shapely line: its x values and its y values\<close>
  "xy g = (map fst g, map snd g)"

section \<open>save_and_show\<close>

text \<open>
  Drawing the canvas, writing the file and opening the window are done by the matplotlib
  backend and are outside the model, together with the ways in which a backend can fail;
  the figure records that saving and showing were asked for (the file as name and format,
  under \<open>globals.imgs_folder\<close>). Saving as \<open>svg\<close> also changes the axes.
\<close>

definition save_and_show ::
  "figure \<times> axes \<Rightarrow> bool \<Rightarrow> bool \<Rightarrow> bool \<Rightarrow> string \<Rightarrow> string \<Rightarrow> nat \<Rightarrow> bool \<Rightarrow> figure \<times> axes" where
  "save_and_show figax save_flag show_flag close_flag fname fmt dpi_value axis_off_flag =
     (let (fig, ax) = figax;
          (fig, ax) =
            (if save_flag then
               (if fmt = ''svg'' then
                  (fig\<lparr>fig_transparent := True, fig_saved := Some (fname, fmt)\<rparr>,
                   ax\<lparr>ax_axis_on := False, ax_fills_canvas := True, ax_transparent := True\<rparr>)
                else (fig\<lparr>fig_saved := Some (fname, fmt)\<rparr>, ax))
             else (fig, ax));
          fig = (if show_flag then fig\<lparr>fig_shown := True\<rparr>
                 else if close_flag then fig\<lparr>fig_closed := True\<rparr>
                 else fig)
      in (fig, ax))"

section \<open>graph_to_gdfs\<close>

text \<open>
  \<open>graph_to_gdfs\<close> lives in \<open>osmnx/save_load.py\<close>, which is not part of the sources at
  hand. A row of the edge table keeps the edge's ends, key and attributes, and a geometry
  that is never missing.
\<close>

record gdf_row =
  row_u :: nid
  row_v :: nid
  row_key :: nat
  row_data :: edge_data
  row_geometry :: "coord list"

definition fill_row :: "nid \<times> nid \<times> nat \<times> edge_data \<Rightarrow> gdf_row prog" where
  "fill_row e =
     (case e of (u, v, key, data) \<Rightarrow>
        (case geometry data of
           Some g \<Rightarrow>
             preturn \<lparr>row_u = u, row_v = v, row_key = key, row_data = data, row_geometry = g\<rparr>
         | None \<Rightarrow>
             pbind (G_node_getitem u) (\<lambda>nu.
             pbind (G_node_getitem v) (\<lambda>nv.
             preturn \<lparr>row_u = u, row_v = v, row_key = key, row_data = data,
                      row_geometry = [(node_x nu, node_y nu), (node_x nv, node_y nv)]\<rparr>))))"

definition graph_to_gdfs :: "gdf_row list prog" where
  \<comment> \<open>Modelled from the spec: \<open>graph_to_gdfs(G, nodes=False, fill_edge_geometry=True)\<close> of
      \<open>save_load.py\<close>, the graph-to-tabular conversion: one row per edge, in the order of
      the graph's edges, with the columns source node, target node, geometry, length and
      highway; an edge without curve data gets the straight line between its end nodes.
      It reads the graph and does not change it.\<close>
  "graph_to_gdfs = pbind G_edges (for_each fill_row)"

definition total_bounds :: "gdf_row list \<Rightarrow> error + (real \<times> real \<times> real \<times> real)" where
  \<comment> \<open>Modelled from the spec: the enclosing rectangle \<open>(west, south, east, north)\<close> of all
      edge geometries; an empty collection fails\<close>
  "total_bounds rows =
     (case enclosing_rectangle (concat (map row_geometry rows)) of
        None \<Rightarrow> Inl UnnamedError
      | Some b \<Rightarrow> Inr b)"

section \<open>plot_graph\<close>

record graph_opts =
  bbox :: "(real \<times> real \<times> real \<times> real) option"
  fig_height :: real
  fig_width :: "real option"
  margin :: real
  axis_off :: bool
  bgcolor :: string
  show_fig :: bool
  save :: bool
  close :: bool
  file_format :: string
  filename :: string
  dpi :: nat
  annotate :: bool
  node_color :: string
  node_size :: real
  node_alpha :: real
  node_edgecolor :: string
  node_zorder :: int
  edge_color :: string
  edge_linewidth :: widths
  edge_alpha :: real
  use_geom :: bool

definition plot_graph_defaults :: graph_opts where
  \<comment> \<open>the keyword defaults of \<open>plot_graph\<close>\<close>
  "plot_graph_defaults =
     \<lparr>bbox = None, fig_height = 6, fig_width = None, margin = 0.02, axis_off = True,
      bgcolor = ''w'', show_fig = True, save = False, close = True, file_format = ''png'',
      filename = ''temp'', dpi = 300, annotate = False, node_color = ''#66ccff'',
      node_size = 15, node_alpha = 1, node_edgecolor = ''none'', node_zorder = 1,
      edge_color = ''#999999'', edge_linewidth = Uniform 1, edge_alpha = 1,
      use_geom = True\<rparr>"

definition straight_line :: "nid \<Rightarrow> nid \<Rightarrow> coord list prog" where
  \<comment> \<open>the \<open>else\<close> branch of the edge loops: \<open>G.node[u]['x']\<close>, \<open>G.node[u]['y']\<close>,
      \<open>G.node[v]['x']\<close>, \<open>G.node[v]['y']\<close>, then the two points\<close>
  "straight_line u v =
     pbind (G_node_getitem u) (\<lambda>n1. let x1 = node_x n1 in
     pbind (G_node_getitem u) (\<lambda>n2. let y1 = node_y n2 in
     pbind (G_node_getitem v) (\<lambda>n3. let x2 = node_x n3 in
     pbind (G_node_getitem v) (\<lambda>n4. let y2 = node_y n4 in
     preturn [(x1, y1), (x2, y2)]))))"

definition edge_line :: "bool \<Rightarrow> nid \<Rightarrow> nid \<Rightarrow> edge_data \<Rightarrow> coord list prog" where
  \<comment> \<open>the body of the edge loop of \<open>plot_graph\<close>, repeated in \<open>plot_graph_route\<close>\<close>
  "edge_line use_geom_flag u v data =
     (if geometry data \<noteq> None \<and> use_geom_flag then
        (case geometry data of
           None \<Rightarrow> praise KeyError
         | Some g \<Rightarrow> (let (xs, ys) = xy g in preturn (zip xs ys)))
      else straight_line u v)"

text \<open>
  The body of \<open>plot_graph\<close> is written in four parts that follow each other in the source:
  the bounding box (lines 243 to 247), the figure width (lines 250 to 252), the new figure
  (lines 255 and 256), and everything that is drawn into it (lines 258 to 307).
\<close>

definition extent :: "graph_opts \<Rightarrow> (real \<times> real \<times> real \<times> real) prog" where
  \<comment> \<open>\<open>north, south, east, west\<close>, from \<open>bbox\<close> or from the bounds of the edge table\<close>
  "extent opts =
     (case bbox opts of
        None \<Rightarrow>
          pbind graph_to_gdfs (\<lambda>edges.
          pbind (plift (total_bounds edges)) (\<lambda>(west, south, east, north).
          preturn (north, south, east, west)))
      | Some (north, south, east, west) \<Rightarrow> preturn (north, south, east, west))"

definition figure_width :: "graph_opts \<Rightarrow> real \<times> real \<times> real \<times> real \<Rightarrow> error + pyfloat" where
  \<comment> \<open>\<open>bbox_aspect_ratio\<close> is computed whether or not a width was passed; the numbers of
      a \<open>bbox\<close> that was passed are Python numbers, the bounds of the edge table are numpy
      scalars\<close>
  "figure_width opts box =
     (case box of (north, south, east, west) \<Rightarrow>
        (case truediv (bbox opts \<noteq> None) (north - south) (Finite (east - west)) of
           Inl e \<Rightarrow> Inl e
         | Inr bbox_aspect_ratio \<Rightarrow>
             (case fig_width opts of
                None \<Rightarrow> truediv (bbox opts \<noteq> None) (fig_height opts) bbox_aspect_ratio
              | Some w \<Rightarrow> Inr (Finite w))))"

definition draw_graph ::
  "graph_opts \<Rightarrow> real \<times> real \<times> real \<times> real \<Rightarrow> real list \<Rightarrow> real list \<Rightarrow> figure \<times> axes \<Rightarrow>
     (figure \<times> axes) prog" where
  "draw_graph opts box node_Xs node_Ys figax =
     (case box of (north, south, east, west) \<Rightarrow>
      case figax of (fig, ax) \<Rightarrow>
     pbind G_edges (\<lambda>es.
     pbind (for_each (\<lambda>(u, v, key, data). edge_line (use_geom opts) u v data) es) (\<lambda>lines.
     let lc = \<lparr>lc_lines = lines, lc_colors = edge_color opts,
               lc_linewidths = edge_linewidth opts, lc_alpha = edge_alpha opts,
               lc_zorder = 2\<rparr>;
         ax = add_collection lc ax;
         ax = scatter \<lparr>sc_x = node_Xs, sc_y = node_Ys, sc_s = node_size opts,
                       sc_c = node_color opts, sc_alpha = node_alpha opts,
                       sc_edgecolor = node_edgecolor opts, sc_zorder = node_zorder opts\<rparr> ax;
         margin_ns = (north - south) * margin opts;
         margin_ew = (east - west) * margin opts;
         ax = set_ylim (south - margin_ns, north + margin_ns) ax;
         ax = set_xlim (west - margin_ew, east + margin_ew) ax;
         ax = ax\<lparr>ax_use_offset := False\<rparr>;
         ax = (if axis_off opts
               then ax\<lparr>ax_axis_on := False, ax_margins_zero := True, ax_ticks_in := True\<rparr>
               else ax) in
     pbind (if annotate opts
            then pbind G_nodes_data (\<lambda>nds.
                 preturn (ax\<lparr>ax_annotations :=
                            ax_annotations ax @ map (\<lambda>(n, data). (n, (node_x data, node_y data))) nds\<rparr>))
            else preturn ax) (\<lambda>ax.
     preturn (save_and_show (fig, ax) (save opts) (show_fig opts) (close opts)
                (filename opts) (file_format opts) (dpi opts) (axis_off opts))))))"

definition plot_graph :: "graph_opts \<Rightarrow> (figure \<times> axes) prog" where
  "plot_graph opts =
     pbind G_node_values (\<lambda>ns1. let node_Xs = map node_x ns1 in
     pbind G_node_values (\<lambda>ns2. let node_Ys = map node_y ns2 in
     pbind (extent opts) (\<lambda>box.
     pbind (plift (figure_width opts box)) (\<lambda>width.
     pbind (plift (subplots (width, fig_height opts) (Some (bgcolor opts)))) (\<lambda>(fig, ax).
     let ax = ax\<lparr>ax_facecolor := Some (bgcolor opts)\<rparr> in
     draw_graph opts box node_Xs node_Ys (fig, ax))))))"

section \<open>plot_graph_route\<close>

record route_opts = graph_opts +
  origin_point :: "(real \<times> real) option"
  destination_point :: "(real \<times> real) option"
  route_color :: string
  route_linewidth :: real
  route_alpha :: real
  orig_dest_node_alpha :: real
  orig_dest_node_size :: real
  orig_dest_node_color :: string
  orig_dest_point_color :: string

definition plot_graph_route_defaults :: route_opts where
  \<comment> \<open>the keyword defaults of \<open>plot_graph_route\<close>\<close>
  "plot_graph_route_defaults =
     \<lparr>bbox = None, fig_height = 6, fig_width = None, margin = 0.02, axis_off = True,
      bgcolor = ''w'', show_fig = True, save = False, close = True, file_format = ''png'',
      filename = ''temp'', dpi = 300, annotate = False, node_color = ''#999999'',
      node_size = 15, node_alpha = 1, node_edgecolor = ''none'', node_zorder = 1,
      edge_color = ''#999999'', edge_linewidth = Uniform 1, edge_alpha = 1,
      use_geom = True,
      origin_point = None, destination_point = None, route_color = ''r'',
      route_linewidth = 4, route_alpha = 0.5, orig_dest_node_alpha = 0.5,
      orig_dest_node_size = 100, orig_dest_node_color = ''r'',
      orig_dest_point_color = ''b''\<rparr>"

definition background_opts :: "route_opts \<Rightarrow> graph_opts" where
  \<comment> \<open>the arguments of the inner call of \<open>plot_graph\<close>: everything is passed on but
      \<open>show\<close>, \<open>save\<close> and \<open>close\<close>, which are off, and \<open>file_format\<close>, which is left
      at its default\<close>
  "background_opts opts =
     (graph_opts.truncate opts)
       \<lparr>show_fig := False, save := False, close := False, file_format := ''png''\<rparr>"

definition shortest_parallel :: "nid \<Rightarrow> nid \<Rightarrow> edge_data prog" where
  \<comment> \<open>\<open>min([data for data in G.edge[u][v].values()], key=lambda x: x['length'])\<close>\<close>
  "shortest_parallel u v =
     pbind (G_edge_getitem u v) (\<lambda>keydict.
     plift (py_min (map snd keydict) length_e))"

definition route_line :: "bool \<Rightarrow> nid \<times> nid \<Rightarrow> coord list prog" where
  \<comment> \<open>the body of the route loop\<close>
  "route_line use_geom_flag uv =
     (case uv of (u, v) \<Rightarrow>
        pbind (shortest_parallel u v) (\<lambda>data. edge_line use_geom_flag u v data))"

definition plot_graph_route :: "route_opts \<Rightarrow> nid list \<Rightarrow> (figure \<times> axes) prog" where
  "plot_graph_route opts route =
     pbind (plot_graph (background_opts opts)) (\<lambda>(fig, ax).
     pbind (plift (py_first route)) (\<lambda>origin_node.
     pbind (plift (py_last route)) (\<lambda>destination_node.
     pbind (if origin_point opts = None \<or> destination_point opts = None then
              pbind (G_node_getitem origin_node) (\<lambda>n1.
              pbind (G_node_getitem destination_node) (\<lambda>n2.
              let origin_destination_lats = (node_y n1, node_y n2) in
              pbind (G_node_getitem origin_node) (\<lambda>n3.
              pbind (G_node_getitem destination_node) (\<lambda>n4.
              let origin_destination_lons = (node_x n3, node_x n4) in
              preturn (origin_destination_lats, origin_destination_lons,
                       orig_dest_node_color opts)))))
            else
              (case (origin_point opts, destination_point opts) of
                 (Some op, Some dp) \<Rightarrow>
                   preturn ((fst op, fst dp), (snd op, snd dp), orig_dest_point_color opts)
               | _ \<Rightarrow> praise TypeError))
       (\<lambda>(lats, lons, marker_color).
     let ax = scatter \<lparr>sc_x = [fst lons, snd lons], sc_y = [fst lats, snd lats],
                       sc_s = orig_dest_node_size opts, sc_c = marker_color,
                       sc_alpha = orig_dest_node_alpha opts,
                       sc_edgecolor = node_edgecolor opts, sc_zorder = 4\<rparr> ax;
         edge_nodes = zip (butlast route) (tl route) in
     pbind (for_each (route_line (use_geom opts)) edge_nodes) (\<lambda>lines.
     let lc = \<lparr>lc_lines = lines, lc_colors = route_color opts,
               lc_linewidths = Uniform (route_linewidth opts), lc_alpha = route_alpha opts,
               lc_zorder = 3\<rparr>;
         ax = add_collection lc ax in
     preturn (save_and_show (fig, ax) (save opts) (show_fig opts) (close opts)
                (filename opts) (file_format opts) (dpi opts) (axis_off opts)))))))"

section \<open>The folium route map\<close>

text \<open>
  folium and shapely are outside the module. \<open>libs\<close> holds what the module takes from
  them: whether the import of folium succeeded, the centroid of the union of a set of
  lines, and the text \<open>str\<close> gives for a column of a row (\<open>KeyError\<close> for a column the
  table does not have).
\<close>

record libs =
  folium_imported :: bool
  centroid_xy :: "coord list list \<Rightarrow> real list \<times> real list"
  str_column :: "gdf_row \<Rightarrow> string \<Rightarrow> error + string"

record polyline =
  pl_locations :: "coord list"
  pl_popup :: "string option"
  pl_latlon :: bool
  pl_color :: string
  pl_weight :: real
  pl_opacity :: real

record folium_map =
  fm_location :: coord
  fm_zoom_start :: int
  fm_tiles :: string
  fm_children :: "polyline list"
  fm_fit_bounds :: "(coord \<times> coord) option"

definition make_folium_polyline ::
  "libs \<Rightarrow> gdf_row \<Rightarrow> string \<Rightarrow> real \<Rightarrow> real \<Rightarrow> string option \<Rightarrow> error + polyline" where
  "make_folium_polyline L row color width opacity popup_attribute =
     (if \<not> folium_imported L then Inl ImportError
      else
        let locations = row_geometry row in
        (case (case popup_attribute of
                 None \<Rightarrow> Inr None
               | Some a \<Rightarrow> (case str_column L row a of
                              Inl e \<Rightarrow> Inl e
                            | Inr popup_text \<Rightarrow> Inr (Some popup_text))) of
           Inl e \<Rightarrow> Inl e
         | Inr popup \<Rightarrow>
             Inr \<lparr>pl_locations = locations, pl_popup = popup, pl_latlon = False,
                  pl_color = color, pl_weight = width, pl_opacity = opacity\<rparr>))"

record folium_opts =
  route_map :: "folium_map option"
  popup_attribute :: "string option"
  tiles :: string
  zoom :: int
  fit_bounds :: bool
  fm_route_color :: string
  route_width :: real
  route_opacity :: real

definition plot_route_folium_defaults :: folium_opts where
  "plot_route_folium_defaults =
     \<lparr>route_map = None, popup_attribute = None, tiles = ''cartodbpositron'', zoom = 1,
      fit_bounds = True, fm_route_color = ''#cc0000'', route_width = 5,
      route_opacity = 1\<rparr>"

definition first_index :: "gdf_row list \<Rightarrow> nid \<times> nid \<Rightarrow> error + nat" where
  \<comment> \<open>\<open>gdf_edges[(gdf_edges['u']==u) & (gdf_edges['v']==v)].index[0]\<close>: the label of the
      first row that is left by the mask; the rows are labelled \<open>0, 1, ...\<close>\<close>
  "first_index gdf_edges uv =
     py_first (filter (\<lambda>i. row_u (gdf_edges ! i) = fst uv \<and> row_v (gdf_edges ! i) = snd uv)
                 [0 ..< length gdf_edges])"

fun collect :: "('a \<Rightarrow> error + 'b) \<Rightarrow> 'a list \<Rightarrow> error + 'b list" where
  \<comment> \<open>a list comprehension whose element expression can raise\<close>
  "collect f [] = Inr []"
| "collect f (x # xs) =
     (case f x of
        Inl e \<Rightarrow> Inl e
      | Inr y \<Rightarrow> (case collect f xs of Inl e \<Rightarrow> Inl e | Inr ys \<Rightarrow> Inr (y # ys)))"

definition loc :: "gdf_row list \<Rightarrow> nat \<Rightarrow> error + gdf_row" where
  \<comment> \<open>\<open>gdf.loc[label]\<close>\<close>
  "loc gdf i = (if i < length gdf then Inr (gdf ! i) else Inl KeyError)"

definition plot_route_folium :: "libs \<Rightarrow> folium_opts \<Rightarrow> nid list \<Rightarrow> folium_map prog" where
  "plot_route_folium L opts route =
     (if \<not> folium_imported L then praise ImportError
      else
        pbind graph_to_gdfs (\<lambda>gdf_edges.
        let route_nodes = zip (butlast route) (tl route) in
        pbind (plift (collect (first_index gdf_edges) route_nodes)) (\<lambda>index.
        pbind (plift (collect (loc gdf_edges) index)) (\<lambda>gdf_route_edges.
        let (x, y) = centroid_xy L (map row_geometry gdf_route_edges) in
        pbind (plift (py_first y)) (\<lambda>y0.
        pbind (plift (py_first x)) (\<lambda>x0.
        let route_centroid = (y0, x0);
            m = (case route_map opts of
                   None \<Rightarrow> \<lparr>fm_location = route_centroid, fm_zoom_start = zoom opts,
                            fm_tiles = tiles opts, fm_children = [], fm_fit_bounds = None\<rparr>
                 | Some m0 \<Rightarrow> m0) in
        pbind (plift (collect (\<lambda>row. make_folium_polyline L row (fm_route_color opts)
                                  (route_width opts) (route_opacity opts) (popup_attribute opts))
                       gdf_route_edges)) (\<lambda>pls.
        let m = m\<lparr>fm_children := fm_children m @ pls\<rparr> in
        if fit_bounds opts then
          pbind (plift (total_bounds gdf_route_edges)) (\<lambda>(tb0, tb1, tb2, tb3).
          preturn (m\<lparr>fm_fit_bounds := Some ((tb1, tb0), (tb3, tb2))\<rparr>))
        else preturn m)))))))"

section \<open>plot_shape\<close>

text \<open>
  The rows of the GeoDataFrame are shapely geometries, of which only polygons and
  multipolygons are accepted; a polygon is drawn as its ring. The bounds of the union of
  all rows are the enclosing rectangle of their points, \<open>(west, south, east, north)\<close>; the
  bounds of an empty union are the empty tuple, and unpacking it into four names raises
  \<open>ValueError\<close>.
\<close>

datatype shape = Polygon "coord list" | MultiPolygon "coord list list" | OtherGeometry

type_synonym shape_gdf = "shape list"

definition points_of :: "shape \<Rightarrow> coord list" where
  "points_of g =
     (case g of Polygon ring \<Rightarrow> ring | MultiPolygon rings \<Rightarrow> concat rings | OtherGeometry \<Rightarrow> [])"

definition unary_union_bounds :: "shape_gdf \<Rightarrow> error + (real \<times> real \<times> real \<times> real)" where
  \<comment> \<open>\<open>west, south, east, north = gdf.unary_union.bounds\<close>\<close>
  "unary_union_bounds gdf =
     (case enclosing_rectangle (concat (map points_of gdf)) of
        None \<Rightarrow> Inl ValueError
      | Some b \<Rightarrow> Inr b)"

record shape_opts =
  sh_fc :: string
  sh_ec :: string
  sh_linewidth :: real
  sh_alpha :: real
  sh_figsize :: "real \<times> real"
  sh_margin :: real
  sh_axis_off :: bool

definition plot_shape_defaults :: shape_opts where
  "plot_shape_defaults =
     \<lparr>sh_fc = ''#cbe0f0'', sh_ec = ''#999999'', sh_linewidth = 1, sh_alpha = 1,
      sh_figsize = (6, 6), sh_margin = 0.02, sh_axis_off = True\<rparr>"

definition polygon_patch_of :: "shape_opts \<Rightarrow> coord list \<Rightarrow> polygon_patch" where
  "polygon_patch_of opts ring =
     \<lparr>pp_ring = ring, pp_fc = sh_fc opts, pp_ec = sh_ec opts,
      pp_linewidth = sh_linewidth opts, pp_alpha = sh_alpha opts\<rparr>"

fun add_geometries :: "shape_opts \<Rightarrow> shape list \<Rightarrow> axes \<Rightarrow> error + axes" where
  "add_geometries opts [] ax = Inr ax"
| "add_geometries opts (g # gs) ax =
     (case g of
        Polygon ring \<Rightarrow> add_geometries opts gs (add_patch (polygon_patch_of opts ring) ax)
      | MultiPolygon rings \<Rightarrow>
          add_geometries opts gs (fold (\<lambda>ring. add_patch (polygon_patch_of opts ring)) rings ax)
      | OtherGeometry \<Rightarrow> Inl ValueError)"

definition plot_shape :: "shape_gdf \<Rightarrow> shape_opts \<Rightarrow> error + (figure \<times> axes)" where
  "plot_shape gdf opts =
     (case subplots (Finite (fst (sh_figsize opts)), snd (sh_figsize opts)) None of
        Inl e \<Rightarrow> Inl e
      | Inr (fig, ax) \<Rightarrow>
          (case add_geometries opts gdf ax of
             Inl e \<Rightarrow> Inl e
           | Inr ax \<Rightarrow>
               (case unary_union_bounds gdf of
                  Inl e \<Rightarrow> Inl e
                | Inr (west, south, east, north) \<Rightarrow>
                    (let margin_ns = (north - south) * sh_margin opts;
                         margin_ew = (east - west) * sh_margin opts;
                         ax = set_ylim (south - margin_ns, north + margin_ns) ax;
                         ax = set_xlim (west - margin_ew, east + margin_ew) ax;
                         ax = ax\<lparr>ax_aspect_equal := True\<rparr>;
                         ax = (if sh_axis_off opts then ax\<lparr>ax_axis_on := False\<rparr> else ax)
                     in Inr (fig\<lparr>fig_shown := True\<rparr>, ax)))))"

section \<open>plot_figure_ground\<close>

text \<open>
  The network is fetched and projected by functions of other modules (\<open>core.py\<close>,
  \<open>projection.py\<close>), which are parameters here, as is the text that \<open>format\<close> makes of
  a point and a network type for the default file name.
\<close>

record collaborators =
  graph_from_address :: "string \<Rightarrow> real \<Rightarrow> string \<Rightarrow> graph \<times> coord"
  graph_from_point :: "coord \<Rightarrow> real \<Rightarrow> string \<Rightarrow> graph"
  project_graph :: "graph \<Rightarrow> graph"
  bbox_from_point :: "coord \<Rightarrow> real \<Rightarrow> real \<times> real \<times> real \<times> real"
  figure_ground_name :: "coord \<Rightarrow> string \<Rightarrow> string"

record fg_opts =
  address :: "string option"
  point :: "coord option"
  dist :: real
  network_type :: string
  street_widths :: "(string \<times> real) list option"
  default_width :: real
  fig_length :: real
  fg_edge_color :: string
  fg_bgcolor :: string
  fg_filename :: "string option"
  fg_file_format :: string
  fg_show :: bool
  fg_save :: bool
  fg_close :: bool
  fg_dpi :: nat

definition plot_figure_ground_defaults :: fg_opts where
  "plot_figure_ground_defaults =
     \<lparr>address = None, point = None, dist = 805, network_type = ''drive_service'',
      street_widths = None, default_width = 4, fig_length = 8, fg_edge_color = ''w'',
      fg_bgcolor = ''#333333'', fg_filename = None, fg_file_format = ''png'',
      fg_show = False, fg_save = True, fg_close = True, fg_dpi = 300\<rparr>"

definition default_street_widths :: "(string \<times> real) list" where
  "default_street_widths =
     [(''footway'', 1.5), (''steps'', 1.5), (''pedestrian'', 1.5), (''service'', 1.5),
      (''path'', 1.5), (''track'', 1.5), (''motorway'', 6)]"

definition street_type_of :: "edge_data \<Rightarrow> error + string" where
  \<comment> \<open>\<open>data['highway'][0] if isinstance(data['highway'], list) else data['highway']\<close>\<close>
  "street_type_of data =
     (case highway data of HList hs \<Rightarrow> py_first hs | Scalar s \<Rightarrow> Inr s)"

definition street_width :: "(string \<times> real) list \<Rightarrow> real \<Rightarrow> edge_data \<Rightarrow> error + real" where
  \<comment> \<open>the body of the width loop\<close>
  "street_width widths_dict fallback data =
     (case street_type_of data of
        Inl e \<Rightarrow> Inl e
      | Inr street_type \<Rightarrow>
          if map_of widths_dict street_type \<noteq> None then getitem widths_dict street_type
          else Inr fallback)"

definition figure_ground_opts ::
  "fg_opts \<Rightarrow> real \<times> real \<times> real \<times> real \<Rightarrow> real list \<Rightarrow> string \<Rightarrow> graph_opts" where
  \<comment> \<open>the arguments of the call of \<open>plot_graph\<close> at the end of \<open>plot_figure_ground\<close>\<close>
  "figure_ground_opts opts bbox_proj edge_linewidths fname =
     plot_graph_defaults
       \<lparr>bbox := Some bbox_proj, fig_height := fig_length opts, margin := 0,
        node_size := 0, edge_linewidth := PerLine edge_linewidths,
        edge_color := fg_edge_color opts, bgcolor := fg_bgcolor opts,
        show_fig := fg_show opts, save := fg_save opts, close := fg_close opts,
        filename := fname, file_format := fg_file_format opts, dpi := fg_dpi opts\<rparr>"

definition plot_figure_ground :: "collaborators \<Rightarrow> fg_opts \<Rightarrow> error + (figure \<times> axes)" where
  \<comment> \<open>the graph is a local of the function; a file name that stays \<open>None\<close> is never
      used, and is passed on as the empty string\<close>
  "plot_figure_ground C opts =
     (let multiplier = 1.2 in
      case (case address opts of
              Some a \<Rightarrow> Inr (graph_from_address C a (dist opts * multiplier) (network_type opts))
            | None \<Rightarrow>
                (case point opts of
                   Some p \<Rightarrow>
                     Inr (graph_from_point C p (dist opts * multiplier) (network_type opts), p)
                 | None \<Rightarrow> Inl ValueError)) of
        Inl e \<Rightarrow> Inl e
      | Inr (G0, pt) \<Rightarrow>
          (let G = project_graph C G0;
               widths_dict = (case street_widths opts of
                                None \<Rightarrow> default_street_widths
                              | Some d \<Rightarrow> d)
           in fst
             (pbind G_edges (\<lambda>es.
              pbind (plift (collect (\<lambda>(u, v, key, data).
                              street_width widths_dict (default_width opts) data) es))
                (\<lambda>edge_linewidths.
              let bbox_proj = bbox_from_point C pt (dist opts);
                  fname = (case fg_filename opts of
                             Some f \<Rightarrow> f
                           | None \<Rightarrow> if fg_save opts
                                      then figure_ground_name C pt (network_type opts)
                                      else []) in
              pbind (plot_graph (figure_ground_opts opts bbox_proj edge_linewidths fname))
                (\<lambda>(fig, ax).
              preturn (fig, ax\<lparr>ax_aspect_equal := True\<rparr>)))) G)))"

section \<open>Notions used to state the properties\<close>


definition spec_polyline :: "graph \<Rightarrow> bool \<Rightarrow> nid \<Rightarrow> nid \<Rightarrow> edge_data \<Rightarrow> coord list \<Rightarrow> bool" where
  \<comment> \<open>the resolver as the specification words it: the stored curve verbatim when the edge
      has one and curves are enabled, otherwise the two points source node, target node\<close>
  "spec_polyline G use_curve u v data line =
     (case (geometry data, use_curve) of
        (Some curve, True) \<Rightarrow> line = curve
      | _ \<Rightarrow>
        (case (map_of (node G) u, map_of (node G) v) of
           (Some nu, Some nv) \<Rightarrow> line = [(node_x nu, node_y nu), (node_x nv, node_y nv)]
         | _ \<Rightarrow> False))"

subsection \<open>Example inputs\<close>

text \<open>
  The four-node loop of the specification's end-to-end example, and a graph with two
  parallel edges from node 1 to node 2: key 0 is the longer one and has no curve, key 1 is
  the shorter one and has a curve.
\<close>

definition residential :: edge_data where
  "residential = \<lparr>length_e = 1, highway = Scalar ''residential'', geometry = None\<rparr>"

definition G_square :: graph where
  "G_square =
     \<lparr>node = [(0, \<lparr>node_x = 0, node_y = 0\<rparr>), (1, \<lparr>node_x = 0, node_y = 1\<rparr>),
              (2, \<lparr>node_x = 1, node_y = 1\<rparr>), (3, \<lparr>node_x = 1, node_y = 0\<rparr>)],
      edge = [(0, [(1, [(0, residential)])]), (1, [(2, [(0, residential)])]),
              (2, [(3, [(0, residential)])]), (3, [(0, [(0, residential)])])]\<rparr>"

definition G_vertical :: graph where
  \<comment> \<open>one edge, straight up: the bounds of its edge table have no width\<close>
  "G_vertical =
     \<lparr>node = [(0, \<lparr>node_x = 0, node_y = 0\<rparr>), (1, \<lparr>node_x = 0, node_y = 1\<rparr>)],
      edge = [(0, [(1, [(0, residential)])]), (1, [])]\<rparr>"

definition long_straight :: edge_data where
  "long_straight = \<lparr>length_e = 10, highway = HList [''residential'', ''service''],
                     geometry = None\<rparr>"

definition short_curved :: edge_data where
  "short_curved = \<lparr>length_e = 5, highway = Scalar ''motorway'',
                    geometry = Some [(0, 0), (1, 1), (1, 2)]\<rparr>"

definition G_parallel :: graph where
  "G_parallel =
     \<lparr>node = [(1, \<lparr>node_x = 0, node_y = 0\<rparr>), (2, \<lparr>node_x = 1, node_y = 2\<rparr>)],
      edge = [(1, [(2, [(0, long_straight), (1, short_curved)])]), (2, [])]\<rparr>"

definition libs_example :: libs where
  \<comment> \<open>folium is installed; the centroid is a fixed point, as no property depends on it\<close>
  "libs_example =
     \<lparr>folium_imported = True, centroid_xy = (\<lambda>lines. ([0], [0])),
      str_column = (\<lambda>row column. Inl KeyError)\<rparr>"

definition collaborators_example :: collaborators where
  \<comment> \<open>every request is answered with the parallel-edge graph, already projected\<close>
  "collaborators_example =
     \<lparr>graph_from_address = (\<lambda>a d t. (G_parallel, (0, 0))),
      graph_from_point = (\<lambda>p d t. G_parallel),
      project_graph = (\<lambda>G. G),
      bbox_from_point = (\<lambda>p d. (2, 0, 1, 0)),
      figure_ground_name = (\<lambda>p t. ''figure_ground'')\<rparr>"

section \<open>The monad and the loops\<close>

lemma pbind_preturn [simp]: "pbind (preturn a) f = f a"
  by (simp add: pbind_def preturn_def)

lemma pbind_praise [simp]: "pbind (praise e) f = praise e"
  by (simp add: pbind_def praise_def)

lemma reads_only_preturn [intro!, simp]: "reads_only (preturn a)"
  by (simp add: reads_only_def preturn_def)

lemma reads_only_praise [intro!, simp]: "reads_only (praise e)"
  by (simp add: reads_only_def praise_def)

lemma reads_only_pread [intro!, simp]: "reads_only (pread r)"
  by (simp add: reads_only_def pread_def)

lemma reads_only_plift [intro!, simp]: "reads_only (plift r)"
  by (cases r) (simp_all add: plift_def)

lemma reads_only_pbind [intro!]:
  assumes "reads_only m" and "\<And>a. reads_only (f a)"
  shows "reads_only (pbind m f)"
proof -
  have "snd (pbind m f G) = G" for G
  proof (cases "m G")
    case (Pair r G')
    from assms(1) Pair have G': "G' = G" by (auto simp: reads_only_def dest: spec [of _ G])
    show ?thesis
    proof (cases r)
      case (Inl e)
      with Pair G' show ?thesis by (simp add: pbind_def)
    next
      case (Inr a)
      from assms(2) [of a] have "snd (f a G) = G" by (simp add: reads_only_def)
      with Pair G' Inr show ?thesis by (simp add: pbind_def)
    qed
  qed
  then show ?thesis by (simp add: reads_only_def)
qed

lemma reads_only_for_each [intro!]:
  assumes "\<And>x. reads_only (f x)"
  shows "reads_only (for_each f xs)"
  by (induction xs) (auto intro: assms)

lemma reads_only_if [intro!]:
  "(c \<Longrightarrow> reads_only m) \<Longrightarrow> (\<not> c \<Longrightarrow> reads_only n) \<Longrightarrow> reads_only (if c then m else n)"
  by simp

lemma reads_only_accessors [intro!, simp]:
  "reads_only G_node_values" "reads_only G_nodes_data" "reads_only (G_node_getitem u)"
  "reads_only G_edges" "reads_only (G_edge_getitem u v)"
  by (simp_all add: G_node_values_def G_nodes_data_def G_node_getitem_def G_edges_def
        G_edge_getitem_def)

lemma reads_only_straight_line [intro!, simp]: "reads_only (straight_line u v)"
  unfolding straight_line_def Let_def by (intro reads_only_pbind reads_only_accessors reads_only_preturn)

lemma reads_only_edge_line [intro!, simp]: "reads_only (edge_line b u v d)"
  unfolding edge_line_def by (auto split: option.splits prod.splits)

lemma reads_only_fill_row [intro!, simp]: "reads_only (fill_row e)"
  unfolding fill_row_def by (auto split: option.splits prod.splits)

lemma reads_only_graph_to_gdfs [intro!, simp]: "reads_only graph_to_gdfs"
  unfolding graph_to_gdfs_def by auto

lemma reads_only_extent [intro!, simp]: "reads_only (extent opts)"
  unfolding extent_def by (auto split: option.splits prod.splits)

lemma reads_only_draw_graph [intro!, simp]: "reads_only (draw_graph opts box xs ys figax)"
  unfolding draw_graph_def Let_def by (auto split: option.splits prod.splits)

lemma reads_only_plot_graph: "reads_only (plot_graph opts)"
  unfolding plot_graph_def Let_def
  by (auto split: option.splits prod.splits)

lemma accessor_eval [simp]:
  "G_node_values G = (Inr (map snd (node G)), G)"
  "G_nodes_data G = (Inr (node G), G)"
  "G_node_getitem u G = (getitem (node G) u, G)"
  "G_edges G = (Inr (edges_of G), G)"
  by (simp_all add: G_node_values_def G_nodes_data_def G_node_getitem_def G_edges_def pread_def)


lemma reads_only_eq: "reads_only m \<Longrightarrow> m G = (fst (m G), G)"
  by (metis prod.collapse reads_only_def)

lemma for_each_collect:
  assumes "\<And>x. reads_only (f x)"
  shows "for_each f xs G = (collect (\<lambda>x. fst (f x G)) xs, G)"
proof (induction xs)
  case Nil
  show ?case by (simp add: preturn_def)
next
  case (Cons x xs)
  have fx: "f x G = (fst (f x G), G)"
    using assms by (rule reads_only_eq)
  show ?case
  proof (cases "fst (f x G)")
    case (Inl e)
    with fx have "f x G = (Inl e, G)" by simp
    then show ?thesis using Inl by (simp add: pbind_def)
  next
    case (Inr y)
    with fx have "f x G = (Inr y, G)" by simp
    then show ?thesis using Inr Cons.IH
      by (simp add: pbind_def preturn_def split: sum.splits)
  qed
qed

lemma collect_Inr_iff: "collect f xs = Inr ys \<longleftrightarrow> list_all2 (\<lambda>x y. f x = Inr y) xs ys"
proof (induction xs arbitrary: ys)
  case Nil
  show ?case by auto
next
  case (Cons x xs)
  show ?case
  proof (cases "f x")
    case (Inl e)
    then show ?thesis by (cases ys) auto
  next
    case fx: (Inr y)
    show ?thesis
    proof (cases "collect f xs")
      case (Inl e)
      then have "\<not> list_all2 (\<lambda>x y. f x = Inr y) xs zs" for zs
        using Cons.IH [of zs] by simp
      with fx Inl show ?thesis by (cases ys) auto
    next
      case (Inr zs)
      then have "list_all2 (\<lambda>x y. f x = Inr y) xs zs' \<longleftrightarrow> zs' = zs" for zs'
        using Cons.IH [of zs'] by auto
      with fx Inr show ?thesis by (cases ys) auto
    qed
  qed
qed

lemma collect_succeeds:
  "(\<And>x. x \<in> set xs \<Longrightarrow> \<exists>y. f x = Inr y) \<Longrightarrow> \<exists>ys. collect f xs = Inr ys"
proof (induction xs)
  case Nil
  show ?case by simp
next
  case (Cons x xs)
  from Cons.prems [of x] obtain y where "f x = Inr y" by auto
  moreover from Cons obtain ys where "collect f xs = Inr ys" by auto
  ultimately show ?case by simp
qed


lemma wf_graph_edge_ends:
  assumes "wf_graph G" and "(u, v, k, d) \<in> set (edges_of G)"
  shows "\<exists>nu nv. map_of (node G) u = Some nu \<and> map_of (node G) v = Some nv"
  using assms unfolding wf_graph_def edges_of_def list_all_iff by fastforce

lemma straight_line_eval:
  "straight_line u v G =
     ((case getitem (node G) u of
         Inl e \<Rightarrow> Inl e
       | Inr nu \<Rightarrow> (case getitem (node G) v of
                     Inl e \<Rightarrow> Inl e
                   | Inr nv \<Rightarrow> Inr [(node_x nu, node_y nu), (node_x nv, node_y nv)])), G)"
  by (simp add: straight_line_def pbind_def preturn_def split: sum.splits)

lemma edge_line_eval:
  "edge_line b u v d G =
     (if geometry d \<noteq> None \<and> b then (case geometry d of None \<Rightarrow> Inl KeyError | Some g \<Rightarrow> Inr g)
      else fst (straight_line u v G), G)"
  by (simp add: edge_line_def straight_line_eval preturn_def praise_def xy_def zip_map_fst_snd
        split: option.splits)

lemma edge_line_succeeds:
  assumes "map_of (node G) u = Some nu" and "map_of (node G) v = Some nv"
  shows "\<exists>line. fst (edge_line b u v d G) = Inr line"
  using assms by (auto simp: edge_line_eval straight_line_eval getitem_def)

lemma graph_lines_succeed:
  assumes "wf_graph G"
  shows "\<exists>lines. for_each (\<lambda>(u, v, key, data). edge_line b u v data) (edges_of G) G = (Inr lines, G)"
proof -
  have ro: "reads_only (case x of (u, v, key, data) \<Rightarrow> edge_line b u v data)"
    for x :: "nid \<times> nid \<times> nat \<times> edge_data"
    by (cases x) auto
  have "\<exists>y. fst ((case x of (u, v, key, data) \<Rightarrow> edge_line b u v data) G) = Inr y"
    if "x \<in> set (edges_of G)" for x
  proof -
    obtain u v k d where x: "x = (u, v, k, d)" by (cases x) auto
    with that assms obtain nu nv where "map_of (node G) u = Some nu" "map_of (node G) v = Some nv"
      using wf_graph_edge_ends by blast
    then show ?thesis using x edge_line_succeeds by simp
  qed
  then obtain lines where
    "collect (\<lambda>x. fst ((case x of (u, v, key, data) \<Rightarrow> edge_line b u v data) G)) (edges_of G) = Inr lines"
    using collect_succeeds [of "edges_of G" "\<lambda>x. fst ((case x of (u, v, key, data) \<Rightarrow> edge_line b u v data) G)"]
    by blast
  then show ?thesis
    using for_each_collect [of "\<lambda>(u, v, key, data). edge_line b u v data" "edges_of G" G, OF ro]
    by simp
qed

lemmas plot_defs = pbind_def plift_def truediv_def preturn_def praise_def Let_def subplots_def
      save_and_show_def set_ylim_def set_xlim_def scatter_def add_collection_def


lemma wf_graph_G_parallel: "wf_graph G_parallel"
  by (simp add: wf_graph_def G_parallel_def)

section \<open>What a successful call has drawn\<close>

lemma edge_line_spec:
  "fst (edge_line b u v d G) = Inr line \<longleftrightarrow> spec_polyline G b u v d line"
  by (auto simp: edge_line_eval straight_line_eval getitem_def spec_polyline_def
        split: option.splits bool.splits)

lemma reads_only_graph_lines [intro!, simp]:
  "reads_only (for_each (\<lambda>(u, v, key, data). edge_line b u v data) es)"
  by (rule reads_only_for_each) (auto split: prod.splits)

lemma reads_only_state: "reads_only m \<Longrightarrow> m G = (r, G') \<Longrightarrow> G' = G \<and> fst (m G) = r"
  by (metis reads_only_def fst_conv snd_conv)

lemma graph_to_gdfs_state: "graph_to_gdfs G = (r, G') \<Longrightarrow> G' = G \<and> fst (graph_to_gdfs G) = r"
  by (rule reads_only_state [OF reads_only_graph_to_gdfs])

lemma graph_lines_state:
  "for_each (\<lambda>(u, v, key, data). edge_line b u v data) es G = (r, G') \<Longrightarrow>
     G' = G \<and> fst (for_each (\<lambda>(u, v, key, data). edge_line b u v data) es G) = r"
  by (rule reads_only_state [OF reads_only_graph_lines])

lemma pbind_Inr:
  assumes "reads_only m" and "fst (pbind m f G) = Inr b"
  shows "\<exists>a. fst (m G) = Inr a \<and> fst (f a G) = Inr b"
proof -
  from assms(1) have m: "m G = (fst (m G), G)" by (rule reads_only_eq)
  show ?thesis
  proof (cases "fst (m G)")
    case (Inl e)
    with m have "m G = (Inl e, G)" by simp
    with assms(2) show ?thesis by (simp add: pbind_def)
  next
    case (Inr a)
    with m have "m G = (Inr a, G)" by simp
    with assms(2) Inr show ?thesis by (simp add: pbind_def)
  qed
qed

lemma plift_Inr: "fst (pbind (plift r) f G) = Inr b \<Longrightarrow> \<exists>a. r = Inr a \<and> fst (f a G) = Inr b"
  by (cases r) (simp_all add: plift_def praise_def preturn_def pbind_def)

lemma subplots_Inr:
  assumes "subplots (width, h) fc = Inr (fig0, ax0)"
  shows "\<exists>w. width = Finite w \<and> 0 \<le> w \<and> 0 \<le> h \<and> fig_size fig0 = (w, h) \<and>
           ax_collections ax0 = [] \<and> ax_scatters ax0 = []"
  using assms by (auto simp: subplots_def split: pyfloat.splits if_splits)

lemma draw_graph_Inr:
  assumes "fst (draw_graph opts (n, s, e, w) xs ys (fig0, ax0) G) = Inr (fig, ax)"
  shows "\<exists>lines.
           fst (for_each (\<lambda>(u, v, key, data). edge_line (use_geom opts) u v data) (edges_of G) G) = Inr lines \<and>
           ax_collections ax = ax_collections ax0 @
             [\<lparr>lc_lines = lines, lc_colors = edge_color opts, lc_linewidths = edge_linewidth opts,
               lc_alpha = edge_alpha opts, lc_zorder = 2\<rparr>] \<and>
           ax_scatters ax = ax_scatters ax0 @
             [\<lparr>sc_x = xs, sc_y = ys,
               sc_s = node_size opts, sc_c = node_color opts, sc_alpha = node_alpha opts,
               sc_edgecolor = node_edgecolor opts, sc_zorder = node_zorder opts\<rparr>] \<and>
           ax_ylim ax = nonsingular (s - (n - s) * margin opts, n + (n - s) * margin opts) \<and>
           ax_xlim ax = nonsingular (w - (e - w) * margin opts, e + (e - w) * margin opts) \<and>
           fig_size fig = fig_size fig0"
  using assms unfolding draw_graph_def
  by (auto simp: pbind_def preturn_def Let_def save_and_show_def set_ylim_def set_xlim_def
        scatter_def add_collection_def dest!: graph_lines_state
        split: if_splits sum.splits prod.splits)

lemma pbind_G_node_values: "pbind G_node_values f G = f (map snd (node G)) G"
  by (simp add: pbind_def)

lemma plot_graph_Inr:
  assumes "fst (plot_graph opts G) = Inr (fig, ax)"
  shows "\<exists>box width fig0 ax0.
           fst (extent opts G) = Inr box \<and> figure_width opts box = Inr width \<and>
           subplots (width, fig_height opts) (Some (bgcolor opts)) = Inr (fig0, ax0) \<and>
           fst (draw_graph opts box (map node_x (map snd (node G))) (map node_y (map snd (node G)))
                  (fig0, ax0\<lparr>ax_facecolor := Some (bgcolor opts)\<rparr>) G) = Inr (fig, ax)"
proof -
  from assms have
    "fst (pbind (extent opts) (\<lambda>box.
       pbind (plift (figure_width opts box)) (\<lambda>width.
       pbind (plift (subplots (width, fig_height opts) (Some (bgcolor opts)))) (\<lambda>(fig, ax).
       draw_graph opts box (map node_x (map snd (node G))) (map node_y (map snd (node G)))
         (fig, ax\<lparr>ax_facecolor := Some (bgcolor opts)\<rparr>)))) G) = Inr (fig, ax)"
    by (simp add: plot_graph_def pbind_G_node_values Let_def)
  from pbind_Inr [OF reads_only_extent this] obtain box where
    1: "fst (extent opts G) = Inr box"
    and "fst (pbind (plift (figure_width opts box)) (\<lambda>width.
       pbind (plift (subplots (width, fig_height opts) (Some (bgcolor opts)))) (\<lambda>(fig, ax).
       draw_graph opts box (map node_x (map snd (node G))) (map node_y (map snd (node G)))
         (fig, ax\<lparr>ax_facecolor := Some (bgcolor opts)\<rparr>))) G) = Inr (fig, ax)"
    by blast
  from plift_Inr [OF this(2)] obtain width where
    2: "figure_width opts box = Inr width"
    and "fst (pbind (plift (subplots (width, fig_height opts) (Some (bgcolor opts)))) (\<lambda>(fig, ax).
       draw_graph opts box (map node_x (map snd (node G))) (map node_y (map snd (node G)))
         (fig, ax\<lparr>ax_facecolor := Some (bgcolor opts)\<rparr>)) G) = Inr (fig, ax)"
    by blast
  from plift_Inr [OF this(2)] obtain figax where
    3: "subplots (width, fig_height opts) (Some (bgcolor opts)) = Inr figax"
    and 4: "fst ((case figax of (fig, ax) \<Rightarrow>
       draw_graph opts box (map node_x (map snd (node G))) (map node_y (map snd (node G)))
         (fig, ax\<lparr>ax_facecolor := Some (bgcolor opts)\<rparr>)) G) = Inr (fig, ax)"
    by blast
  obtain fig0 ax0 where "figax = (fig0, ax0)" by (cases figax) auto
  with 1 2 3 4 show ?thesis by auto
qed

lemma plot_graph_layers:
  assumes "fst (plot_graph opts G) = Inr (fig, ax)"
  shows "\<exists>lines.
           fst (for_each (\<lambda>(u, v, key, data). edge_line (use_geom opts) u v data) (edges_of G) G) = Inr lines \<and>
           ax_collections ax =
             [\<lparr>lc_lines = lines, lc_colors = edge_color opts, lc_linewidths = edge_linewidth opts,
               lc_alpha = edge_alpha opts, lc_zorder = 2\<rparr>] \<and>
           ax_scatters ax =
             [\<lparr>sc_x = map node_x (map snd (node G)), sc_y = map node_y (map snd (node G)),
               sc_s = node_size opts, sc_c = node_color opts, sc_alpha = node_alpha opts,
               sc_edgecolor = node_edgecolor opts, sc_zorder = node_zorder opts\<rparr>]"
proof -
  from plot_graph_Inr [OF assms] obtain box width fig0 ax0 where
    sp: "subplots (width, fig_height opts) (Some (bgcolor opts)) = Inr (fig0, ax0)"
    and dr: "fst (draw_graph opts box (map node_x (map snd (node G))) (map node_y (map snd (node G)))
                  (fig0, ax0\<lparr>ax_facecolor := Some (bgcolor opts)\<rparr>) G) = Inr (fig, ax)"
    by blast
  obtain n s e w where "box = (n, s, e, w)" by (cases box) auto
  with dr have
    "fst (draw_graph opts (n, s, e, w) (map node_x (map snd (node G))) (map node_y (map snd (node G)))
            (fig0, ax0\<lparr>ax_facecolor := Some (bgcolor opts)\<rparr>) G) = Inr (fig, ax)"
    by simp
  from draw_graph_Inr [OF this] subplots_Inr [OF sp] show ?thesis by auto
qed

lemma graph_lines_spec:
  fixes es :: "(nid \<times> nid \<times> nat \<times> edge_data) list"
  assumes "fst (for_each (\<lambda>(u, v, key, data). edge_line b u v data) es G) = Inr lines"
  shows "list_all2 (\<lambda>(u, v, key, data) line. spec_polyline G b u v data line) es lines"
proof -
  have ro: "reads_only (case x of (u, v, key, data) \<Rightarrow> edge_line b u v data)"
    for x :: "nid \<times> nid \<times> nat \<times> edge_data"
    by (cases x) auto
  have "collect (\<lambda>x. fst ((case x of (u, v, key, data) \<Rightarrow> edge_line b u v data) G)) es = Inr lines"
    using assms for_each_collect [of "\<lambda>(u, v, key, data). edge_line b u v data" es G, OF ro] by simp
  then have "list_all2 (\<lambda>x line. fst ((case x of (u, v, key, data) \<Rightarrow> edge_line b u v data) G) = Inr line)
               es lines"
    by (simp add: collect_Inr_iff)
  then show ?thesis
    by (rule list_all2_mono) (auto simp: edge_line_spec)
qed

lemma G_edge_getitem_eval [simp]:
  "G_edge_getitem u v G =
     ((case getitem (edge G) u of Inl e \<Rightarrow> Inl e | Inr nbrs \<Rightarrow> getitem nbrs v), G)"
  by (simp add: G_edge_getitem_def pread_def)

lemma reads_only_shortest_parallel [intro!, simp]: "reads_only (shortest_parallel u v)"
  unfolding shortest_parallel_def by auto

lemma reads_only_route_line [intro!, simp]: "reads_only (route_line b uv)"
  unfolding route_line_def by (auto split: prod.splits)

lemma route_line_spec:
  "fst (route_line b (u, v) G) = Inr line \<longleftrightarrow>
     (\<exists>data. fst (shortest_parallel u v G) = Inr data \<and> spec_polyline G b u v data line)"
proof -
  have sp: "shortest_parallel u v G = (fst (shortest_parallel u v G), G)"
    by (rule reads_only_eq) simp
  show ?thesis
  proof (cases "fst (shortest_parallel u v G)")
    case (Inl e)
    with sp have "shortest_parallel u v G = (Inl e, G)" by simp
    then show ?thesis using Inl by (simp add: route_line_def pbind_def)
  next
    case (Inr data)
    with sp have "shortest_parallel u v G = (Inr data, G)" by simp
    then show ?thesis using Inr by (simp add: route_line_def pbind_def edge_line_spec)
  qed
qed

lemma route_lines_spec:
  assumes "fst (for_each (route_line b) pairs G) = Inr lines"
  shows "list_all2 (\<lambda>(u, v) line. \<exists>data. fst (shortest_parallel u v G) = Inr data \<and>
                      spec_polyline G b u v data line) pairs lines"
proof -
  have "collect (\<lambda>x. fst (route_line b x G)) pairs = Inr lines"
    using assms for_each_collect [of "route_line b" pairs G] by simp
  then have "list_all2 (\<lambda>x line. fst (route_line b x G) = Inr line) pairs lines"
    by (simp add: collect_Inr_iff)
  then show ?thesis
    by (rule list_all2_mono) (auto simp: route_line_spec)
qed

lemma plot_graph_route_layers:
  assumes "fst (plot_graph_route opts route G) = Inr (fig, ax)"
  shows "\<exists>fig0 ax0 lines marker.
           fst (plot_graph (background_opts opts) G) = Inr (fig0, ax0) \<and>
           fst (for_each (route_line (use_geom opts)) (zip (butlast route) (tl route)) G) = Inr lines \<and>
           ax_collections ax = ax_collections ax0 @
             [\<lparr>lc_lines = lines, lc_colors = route_color opts,
               lc_linewidths = Uniform (route_linewidth opts), lc_alpha = route_alpha opts,
               lc_zorder = 3\<rparr>] \<and>
           ax_scatters ax = ax_scatters ax0 @ [marker] \<and> sc_zorder marker = 4 \<and>
           (origin_point opts = None \<or> destination_point opts = None \<longrightarrow>
              (\<exists>first_node last_node n1 n2.
                 py_first route = Inr first_node \<and> py_last route = Inr last_node \<and>
                 map_of (node G) first_node = Some n1 \<and> map_of (node G) last_node = Some n2 \<and>
                 sc_x marker = [node_x n1, node_x n2] \<and> sc_y marker = [node_y n1, node_y n2] \<and>
                 sc_c marker = orig_dest_node_color opts))"
proof -
  have pg: "plot_graph (background_opts opts) G = (fst (plot_graph (background_opts opts) G), G)"
    by (rule reads_only_eq) (rule reads_only_plot_graph)
  have fe: "for_each (route_line (use_geom opts)) (zip (butlast route) (tl route)) G =
              (fst (for_each (route_line (use_geom opts)) (zip (butlast route) (tl route)) G), G)"
    by (rule reads_only_eq) auto
  show ?thesis
  proof (cases "fst (plot_graph (background_opts opts) G)")
    case (Inl e)
    with pg have "plot_graph (background_opts opts) G = (Inl e, G)" by simp
    with assms show ?thesis by (simp add: plot_graph_route_def pbind_def)
  next
    case (Inr figax)
    obtain fig0 ax0 where figax: "figax = (fig0, ax0)" by (cases figax) auto
    with pg Inr have pg': "plot_graph (background_opts opts) G = (Inr (fig0, ax0), G)" by simp
    show ?thesis
    proof (cases "fst (for_each (route_line (use_geom opts)) (zip (butlast route) (tl route)) G)")
      case (Inl e)
      with fe have "for_each (route_line (use_geom opts)) (zip (butlast route) (tl route)) G = (Inl e, G)"
        by simp
      with assms pg' show ?thesis
        by (auto simp: plot_graph_route_def plot_defs getitem_def
              split: if_splits option.splits sum.splits prod.splits)
    next
      case (Inr lines)
      with fe have fe': "for_each (route_line (use_geom opts)) (zip (butlast route) (tl route)) G = (Inr lines, G)"
        by simp
      with assms pg' Inr figax show ?thesis
        using \<open>fst (plot_graph (background_opts opts) G) = Inr figax\<close>
        by (auto simp: plot_graph_route_def plot_defs getitem_def
              split: if_splits option.splits sum.splits prod.splits)
    qed
  qed
qed


lemma background_opts_simps [simp]:
  "use_geom (background_opts opts) = use_geom opts"
  "node_zorder (background_opts opts) = node_zorder opts"
  "background_opts (opts\<lparr>origin_point := p, destination_point := q\<rparr>) = background_opts opts"
  by (simp_all add: background_opts_def graph_opts.defs)


subsection \<open>Runs on the example graphs\<close>

lemmas eval_defs = plot_graph_def extent_def figure_width_def draw_graph_def
  plot_graph_route_def plot_defs background_opts_def
  graph_opts.defs plot_graph_defaults_def plot_graph_route_defaults_def
  G_square_def G_parallel_def residential_def long_straight_def short_curved_def
  edges_of_def edge_line_def straight_line_def route_line_def shortest_parallel_def
  getitem_def py_min_def py_first_def py_last_def xy_def

lemma parallel_box_runs:
  "\<exists>fig ax. fst (plot_graph (plot_graph_defaults\<lparr>bbox := Some (2, 0, 1, 0)\<rparr>) G_parallel) = Inr (fig, ax)"
  by (simp add: eval_defs)


lemma route_parallel_runs:
  "\<exists>fig ax. fst (plot_graph_route (plot_graph_route_defaults\<lparr>bbox := Some (2, 0, 1, 0)\<rparr>) [1, 2] G_parallel)
      = Inr (fig, ax)"
  by (simp add: eval_defs)

lemma route_square_runs:
  "\<exists>fig ax. fst (plot_graph_route
       (plot_graph_route_defaults\<lparr>bbox := Some (1, 0, 1, 0), use_geom := False,
          origin_point := Some (5, 5)\<rparr>) [0, 1, 2] G_square) = Inr (fig, ax)"
  by (simp add: eval_defs)

text \<open>
  The end-to-end example of the specification: on the four-node loop, with
  \<open>use_geom = False\<close>, the route \<open>[0, 1, 2]\<close> is drawn as the two straight segments, and
  the markers are at \<open>(0, 0)\<close> and \<open>(1, 1)\<close>.
\<close>

lemma end_to_end_example:
  "\<exists>fig ax edges_lc route_lc nodes_sc markers_sc.
     fst (plot_graph_route
            (plot_graph_route_defaults\<lparr>bbox := Some (1, 0, 1, 0), use_geom := False\<rparr>)
            [0, 1, 2] G_square) = Inr (fig, ax) \<and>
     ax_collections ax = [edges_lc, route_lc] \<and>
     lc_lines route_lc = [[(0, 0), (0, 1)], [(0, 1), (1, 1)]] \<and>
     ax_scatters ax = [nodes_sc, markers_sc] \<and>
     sc_x markers_sc = [0, 1] \<and> sc_y markers_sc = [0, 1]"
  by (simp add: eval_defs)

section \<open>The graph is only read\<close>

text \<open>
  \<open>reads_only\<close> is a real restriction: a program that writes the graph does not have it.
\<close>

lemma pwrite_not_reads_only: "\<not> reads_only (pwrite (\<lambda>G. G\<lparr>node := []\<rparr>))"
proof
  assume "reads_only (pwrite (\<lambda>G. G\<lparr>node := []\<rparr>))"
  then have "snd (pwrite (\<lambda>G. G\<lparr>node := []\<rparr>) G_square) = G_square"
    by (simp add: reads_only_def)
  then have "node (G_square\<lparr>node := []\<rparr>) = node G_square"
    by (simp add: pwrite_def)
  then show False by (simp add: G_square_def)
qed

text \<open>
  C9. \<open>plot_graph\<close> only reads the graph: for every graph and every choice of arguments,
  whether the call returns a figure or raises, the graph object after the call (its nodes,
  its edges and all their attributes) is the graph object before the call. The conversion
  \<open>graph_to_gdfs\<close>, used when no bounding box is passed, is taken as the specification
  describes it, a conversion that builds a table.
\<close>

theorem plot_graph_leaves_graph_unchanged: "snd (plot_graph opts G) = G"
  using reads_only_plot_graph [of opts] by (simp add: reads_only_def)

section \<open>View limits\<close>




lemma add_geometries_limits:
  "add_geometries sopts gs ax = Inr ax' \<Longrightarrow> ax_ylim ax' = ax_ylim ax \<and> ax_xlim ax' = ax_xlim ax"
proof (induction gs arbitrary: ax)
  case Nil
  then show ?case by simp
next
  case (Cons g gs)
  have keep: "ax_ylim (fold (\<lambda>ring. add_patch (polygon_patch_of sopts ring)) rings a) = ax_ylim a \<and>
              ax_xlim (fold (\<lambda>ring. add_patch (polygon_patch_of sopts ring)) rings a) = ax_xlim a" for rings a
    by (induction rings arbitrary: a) (simp_all add: add_patch_def)
  show ?case
  proof (cases g)
    case (Polygon ring)
    with Cons.prems Cons.IH [of "add_patch (polygon_patch_of sopts ring) ax"] show ?thesis
      by (simp add: add_patch_def)
  next
    case (MultiPolygon rings)
    with Cons.prems
      Cons.IH [of "fold (\<lambda>ring. add_patch (polygon_patch_of sopts ring)) rings ax"] keep [of rings ax]
    show ?thesis by simp
  next
    case OtherGeometry
    with Cons.prems show ?thesis by simp
  qed
qed










text \<open>
  Three more calls at which the stated limits are not what the caller gets. A box with
  north below south gives a negative width, which \<open>plt.subplots\<close> refuses. A flat box with
  a width passed is drawn, and matplotlib widens its y limits \<open>(0, 0)\<close> to
  \<open>(-0.05, 0.05)\<close>. A table without rows has a union without bounds, and \<open>plot_shape\<close>
  raises when it unpacks them.
\<close>

lemma empty_table_refused: "plot_shape [] plot_shape_defaults = Inl ValueError"
  by (simp add: plot_shape_def plot_shape_defaults_def subplots_def unary_union_bounds_def
        enclosing_rectangle_def)

lemma inverted_box_refused:
  "fst (plot_graph (plot_graph_defaults\<lparr>bbox := Some (0, 1, 1, 0)\<rparr>) G_square) = Inl ValueError"
  by (simp add: eval_defs)

lemma flat_box_limits_widened:
  "\<exists>fig ax. fst (plot_graph (plot_graph_defaults\<lparr>bbox := Some (0, 0, 1, 0), fig_width := Some 6\<rparr>)
                   G_square) = Inr (fig, ax) \<and>
     ax_ylim ax = (- 0.05, 0.05)"
  by (simp add: eval_defs nonsingular_def)

section \<open>Figure size\<close>







text \<open>
  More calls that do not return a figure of the stated width, or do not return. A
  negative width that is passed is refused by \<open>plt.subplots\<close>, as is the negative width
  computed for the box \<open>(0, 1, 1, 0)\<close> (\<open>inverted_box_refused\<close>). With no box passed, the
  numbers are numpy scalars and a division by zero does not raise: for the graph of one
  vertical edge the aspect ratio is \<open>inf\<close>, the width is \<open>6 / inf = 0\<close>, and the figure is
  returned with that width and with x limits widened from \<open>(0, 0)\<close>.
\<close>

lemma negative_width_refused:
  "fst (plot_graph (plot_graph_defaults\<lparr>bbox := Some (1, 0, 1, 0), fig_width := Some (- 5)\<rparr>) G_square)
     = Inl ValueError"
  by (simp add: eval_defs)

lemma vertical_graph_default:
  "\<exists>fig ax. fst (plot_graph plot_graph_defaults G_vertical) = Inr (fig, ax) \<and>
     fig_size fig = (0, 6) \<and> ax_xlim ax = (- 0.05, 0.05)"
  by (simp add: eval_defs graph_to_gdfs_def fill_row_def total_bounds_def enclosing_rectangle_def
        G_vertical_def nonsingular_def)

section \<open>Parallel edges of a route step\<close>

text \<open>
  Python's \<open>min\<close> returns the first of the items with the least key: everything before
  it has a strictly greater key, everything after it a key that is not smaller. This is
  the choice \<open>plot_graph_route\<close> makes among the parallel edges of a route step.
\<close>

lemma min_from_first_minimum:
  "\<exists>pre post. best # xs = pre @ min_from key best xs # post \<and>
     (\<forall>y \<in> set pre. key (min_from key best xs) < key y) \<and>
     (\<forall>y \<in> set post. key (min_from key best xs) \<le> key y)"
proof (induction xs arbitrary: best)
  case Nil
  have "[best] = [] @ min_from key best [] # []" by simp
  then show ?case by (metis empty_iff empty_set)
next
  case (Cons x xs)
  define b where "b = (if key x < key best then x else best)"
  define m where "m = min_from key b xs"
  from Cons.IH [of b] obtain pre post where
    s: "b # xs = pre @ m # post"
    and lt: "\<forall>y \<in> set pre. key m < key y"
    and le: "\<forall>y \<in> set post. key m \<le> key y"
    unfolding m_def by blast
  have mb: "key m \<le> key b"
  proof (cases pre)
    case Nil
    with s show ?thesis by simp
  next
    case (Cons p pre')
    with s lt show ?thesis by auto
  qed
  have r: "min_from key best (x # xs) = m" by (simp add: m_def b_def)
  have "\<exists>pre' post'. best # x # xs = pre' @ m # post' \<and>
          (\<forall>y \<in> set pre'. key m < key y) \<and> (\<forall>y \<in> set post'. key m \<le> key y)"
  proof (cases "key x < key best")
    case True
    then have bx: "b = x" by (simp add: b_def)
    with s have "best # x # xs = (best # pre) @ m # post" by simp
    moreover from True mb bx lt have "\<forall>y \<in> set (best # pre). key m < key y" by auto
    ultimately show ?thesis using le by blast
  next
    case False
    then have bb: "b = best" by (simp add: b_def)
    show ?thesis
    proof (cases pre)
      case Nil
      with s bb have "m = best" "post = xs" by simp_all
      with False le have "best # x # xs = [] @ m # (x # xs)" "\<forall>y \<in> set (x # xs). key m \<le> key y"
        by auto
      then show ?thesis by (metis empty_iff empty_set)
    next
      case (Cons p pre')
      with s bb have p: "p = best" and xs: "xs = pre' @ m # post" by simp_all
      from Cons p lt have "key m < key best" by simp
      with False have "key m < key x" by simp
      with lt Cons p have "\<forall>y \<in> set (best # x # pre'). key m < key y" by auto
      moreover from xs have "best # x # xs = (best # x # pre') @ m # post" by simp
      ultimately show ?thesis using le by blast
    qed
  qed
  then show ?case unfolding r .
qed

lemma py_min_first_minimum:
  assumes "xs \<noteq> []"
  shows "\<exists>pre m post. py_min xs key = Inr m \<and> xs = pre @ m # post \<and>
           (\<forall>y \<in> set pre. key m < key y) \<and> (\<forall>y \<in> set post. key m \<le> key y)"
proof -
  from assms obtain x rest where xs: "xs = x # rest" by (cases xs) auto
  from min_from_first_minimum [of x rest key] show ?thesis
    unfolding xs by (auto simp: py_min_def)
qed

lemma shortest_parallel_selects:
  assumes "fst (G_edge_getitem u v G) = Inr keydict" and "keydict \<noteq> []"
  shows "\<exists>pre data post. fst (shortest_parallel u v G) = Inr data \<and>
           map snd keydict = pre @ data # post \<and>
           (\<forall>d \<in> set pre. length_e data < length_e d) \<and>
           (\<forall>d \<in> set post. length_e data \<le> length_e d)"
proof -
  from assms(2) have "map snd keydict \<noteq> []" by simp
  from py_min_first_minimum [OF this, of length_e] obtain pre data post where
    "py_min (map snd keydict) length_e = Inr data" "map snd keydict = pre @ data # post"
    "\<forall>y \<in> set pre. length_e data < length_e y" "\<forall>y \<in> set post. length_e data \<le> length_e y"
    by blast
  moreover from assms(1) have "G_edge_getitem u v G = (Inr keydict, G)"
    by (simp split: sum.splits)
  ultimately show ?thesis
    by (auto simp: shortest_parallel_def pbind_def plift_def preturn_def simp del: G_edge_getitem_eval)
qed

text \<open>
  C1. The claim says that both route renderings draw, for a step with parallel edges, the
  edge of least \<open>length\<close>. \<open>plot_graph_route\<close> does (\<open>shortest_parallel_selects\<close>).
  \<open>plot_route_folium\<close> takes \<open>.index[0]\<close> of the rows with the step's ends, the first
  parallel edge of the table whatever its length. On the graph whose edges from node 1 to
  node 2 are key 0 of length 10, without a curve, and key 1 of length 5, with a curve, the
  folium map of the route \<open>[1, 2]\<close> has the straight line of key 0, while the shortest
  parallel edge is key 1.
\<close>

theorem folium_route_draws_first_parallel_edge:
  "fst (plot_route_folium libs_example plot_route_folium_defaults [1, 2] G_parallel) =
     Inr \<lparr>fm_location = (0, 0), fm_zoom_start = 1, fm_tiles = ''cartodbpositron'',
          fm_children =
            [\<lparr>pl_locations = [(0, 0), (1, 2)], pl_popup = None, pl_latlon = False,
              pl_color = ''#cc0000'', pl_weight = 5, pl_opacity = 1\<rparr>],
          fm_fit_bounds = Some ((0, 0), (2, 1))\<rparr> \<and>
   fst (shortest_parallel 1 2 G_parallel) = Inr short_curved \<and>
   fst (G_edge_getitem 1 2 G_parallel) = Inr [(0, long_straight), (1, short_curved)] \<and>
   length_e long_straight = 10 \<and> length_e short_curved = 5 \<and>
   geometry long_straight = None \<and> geometry short_curved = Some [(0, 0), (1, 1), (1, 2)]"
  by (simp add: plot_route_folium_def plot_route_folium_defaults_def libs_example_def
        graph_to_gdfs_def fill_row_def first_index_def loc_def make_folium_polyline_def
        total_bounds_def enclosing_rectangle_def eval_defs)


section \<open>Edge polylines\<close>

text \<open>
  C5. Every polyline that is drawn resolves its edge as the specification says: the
  edge's stored \<open>geometry\<close> sequence verbatim when the edge has one and \<open>use_geom\<close> is
  true, and otherwise the two points source node, target node. In a figure returned by
  \<open>plot_graph\<close> the edge layer holds one such polyline per edge, in the order of the
  edges; in a figure returned by \<open>plot_graph_route\<close> the route layer holds one per route
  step, resolved for the parallel edge that was selected for the step.
\<close>

theorem edge_polylines_resolved:
  "(fst (plot_graph opts G) = Inr (fig, ax) \<longrightarrow>
      (\<exists>lc. ax_collections ax = [lc] \<and>
         list_all2 (\<lambda>(u, v, key, data) line. spec_polyline G (use_geom opts) u v data line)
           (edges_of G) (lc_lines lc))) \<and>
   (fst (plot_graph_route ropts route G) = Inr (fig', ax') \<longrightarrow>
      (\<exists>lc lr. ax_collections ax' = [lc, lr] \<and>
         list_all2 (\<lambda>(u, v) line. \<exists>data. fst (shortest_parallel u v G) = Inr data \<and>
                      spec_polyline G (use_geom ropts) u v data line)
           (zip (butlast route) (tl route)) (lc_lines lr)))"
proof (intro conjI impI)
  assume "fst (plot_graph opts G) = Inr (fig, ax)"
  from plot_graph_layers [OF this] obtain lines where
    l: "fst (for_each (\<lambda>(u, v, key, data). edge_line (use_geom opts) u v data) (edges_of G) G) = Inr lines"
    and c: "ax_collections ax =
             [\<lparr>lc_lines = lines, lc_colors = edge_color opts, lc_linewidths = edge_linewidth opts,
               lc_alpha = edge_alpha opts, lc_zorder = 2\<rparr>]"
    by blast
  from graph_lines_spec [OF l] c
  show "\<exists>lc. ax_collections ax = [lc] \<and>
         list_all2 (\<lambda>(u, v, key, data) line. spec_polyline G (use_geom opts) u v data line)
           (edges_of G) (lc_lines lc)"
    by simp
next
  assume "fst (plot_graph_route ropts route G) = Inr (fig', ax')"
  from plot_graph_route_layers [OF this] obtain fig0 ax0 lines where
    bg: "fst (plot_graph (background_opts ropts) G) = Inr (fig0, ax0)"
    and l: "fst (for_each (route_line (use_geom ropts)) (zip (butlast route) (tl route)) G) = Inr lines"
    and c: "ax_collections ax' = ax_collections ax0 @
             [\<lparr>lc_lines = lines, lc_colors = route_color ropts,
               lc_linewidths = Uniform (route_linewidth ropts), lc_alpha = route_alpha ropts,
               lc_zorder = 3\<rparr>]"
    by blast
  from plot_graph_layers [OF bg] obtain lc where "ax_collections ax0 = [lc]" by blast
  with route_lines_spec [OF l] c
  show "\<exists>lc lr. ax_collections ax' = [lc, lr] \<and>
         list_all2 (\<lambda>(u, v) line. \<exists>data. fst (shortest_parallel u v G) = Inr data \<and>
                      spec_polyline G (use_geom ropts) u v data line)
           (zip (butlast route) (tl route)) (lc_lines lr)"
    by simp
qed


text \<open>
  On the graph with two parallel edges: the edge layer has the straight line of the edge
  without a curve and the curve of the other, and the route from node 1 to node 2 is the
  curve of the shorter edge.
\<close>

theorem edge_polylines_resolved_witness:
  "\<exists>fig ax fig' ax'.
     fst (plot_graph (plot_graph_defaults\<lparr>bbox := Some (2, 0, 1, 0)\<rparr>) G_parallel) = Inr (fig, ax) \<and>
     (\<exists>lc. ax_collections ax = [lc] \<and> lc_lines lc = [[(0, 0), (1, 2)], [(0, 0), (1, 1), (1, 2)]]) \<and>
     fst (plot_graph_route (plot_graph_route_defaults\<lparr>bbox := Some (2, 0, 1, 0)\<rparr>) [1, 2] G_parallel)
       = Inr (fig', ax') \<and>
     (\<exists>lc lr. ax_collections ax' = [lc, lr] \<and> lc_lines lr = [[(0, 0), (1, 1), (1, 2)]])"
proof -
  let ?o = "plot_graph_defaults\<lparr>bbox := Some (2, 0, 1, 0)\<rparr>"
  let ?r = "plot_graph_route_defaults\<lparr>bbox := Some (2, 0, 1, 0)\<rparr>"
  obtain fig ax where 1: "fst (plot_graph ?o G_parallel) = Inr (fig, ax)"
    using parallel_box_runs by blast
  obtain fig' ax' where 2: "fst (plot_graph_route ?r [1, 2] G_parallel) = Inr (fig', ax')"
    using route_parallel_runs by blast
  have sp: "fst (shortest_parallel (Suc 0) 2 G_parallel) = Inr d \<longleftrightarrow> d = short_curved" for d
    by (auto simp: shortest_parallel_def pbind_def plift_def preturn_def getitem_def py_min_def
          G_parallel_def long_straight_def short_curved_def)
  have e: "edges_of G_parallel = [(1, 2, 0, long_straight), (1, 2, 1, short_curved)]"
    by (simp add: edges_of_def G_parallel_def)
  have s1: "spec_polyline G_parallel True (Suc 0) 2 long_straight line \<longleftrightarrow> line = [(0, 0), (1, 2)]"
    for line
    by (simp add: spec_polyline_def G_parallel_def long_straight_def)
  have s2: "spec_polyline G_parallel True (Suc 0) 2 short_curved line \<longleftrightarrow>
              line = [(0, 0), (1, 1), (1, 2)]" for line
    by (simp add: spec_polyline_def short_curved_def)
  have u: "use_geom ?o = True" "use_geom ?r = True"
    by (simp_all add: plot_graph_defaults_def plot_graph_route_defaults_def)
  from edge_polylines_resolved [of ?o G_parallel fig ax ?r "[1, 2]" fig' ax'] 1 2
  have "(\<exists>lc. ax_collections ax = [lc] \<and> lc_lines lc = [[(0, 0), (1, 2)], [(0, 0), (1, 1), (1, 2)]]) \<and>
        (\<exists>lc lr. ax_collections ax' = [lc, lr] \<and> lc_lines lr = [[(0, 0), (1, 1), (1, 2)]])"
    unfolding u e by (simp add: list_all2_Cons1 sp s1 s2)
  with 1 2 show ?thesis by blast
qed

section \<open>Drawing order\<close>

text \<open>
  C6. In every figure that \<open>plot_graph_route\<close> returns there are exactly two line layers
  and two scatter layers: the edge lines with z-order 2, the nodes with the caller's
  \<open>node_zorder\<close>, the route with z-order 3 and the origin and destination markers with
  z-order 4. The default \<open>node_zorder\<close> is 1, in \<open>plot_graph_route\<close> and in \<open>plot_graph\<close>.
\<close>

theorem layer_zorders:
  "(fst (plot_graph_route opts route G) = Inr (fig, ax) \<longrightarrow>
      (\<exists>edges_lc route_lc nodes_sc markers_sc.
         ax_collections ax = [edges_lc, route_lc] \<and> ax_scatters ax = [nodes_sc, markers_sc] \<and>
         lc_zorder edges_lc = 2 \<and> sc_zorder nodes_sc = node_zorder opts \<and>
         lc_zorder route_lc = 3 \<and> sc_zorder markers_sc = 4)) \<and>
   node_zorder plot_graph_route_defaults = 1 \<and> node_zorder plot_graph_defaults = 1"
proof (intro conjI impI)
  assume "fst (plot_graph_route opts route G) = Inr (fig, ax)"
  from plot_graph_route_layers [OF this] obtain fig0 ax0 lines marker where
    bg: "fst (plot_graph (background_opts opts) G) = Inr (fig0, ax0)"
    and c: "ax_collections ax = ax_collections ax0 @
             [\<lparr>lc_lines = lines, lc_colors = route_color opts,
               lc_linewidths = Uniform (route_linewidth opts), lc_alpha = route_alpha opts,
               lc_zorder = 3\<rparr>]"
    and m: "ax_scatters ax = ax_scatters ax0 @ [marker]" "sc_zorder marker = 4"
    by blast
  from plot_graph_layers [OF bg] obtain lc sc where
    "ax_collections ax0 = [lc]" "lc_zorder lc = 2" "ax_scatters ax0 = [sc]"
    "sc_zorder sc = node_zorder opts"
    by force
  with c m show "\<exists>edges_lc route_lc nodes_sc markers_sc.
         ax_collections ax = [edges_lc, route_lc] \<and> ax_scatters ax = [nodes_sc, markers_sc] \<and>
         lc_zorder edges_lc = 2 \<and> sc_zorder nodes_sc = node_zorder opts \<and>
         lc_zorder route_lc = 3 \<and> sc_zorder markers_sc = 4"
    by simp
qed (simp_all add: plot_graph_route_defaults_def plot_graph_defaults_def)


text \<open>The route from node 1 to node 2 on the graph with two parallel edges.\<close>

theorem layer_zorders_witness:
  "\<exists>fig ax edges_lc route_lc nodes_sc markers_sc.
     fst (plot_graph_route (plot_graph_route_defaults\<lparr>bbox := Some (2, 0, 1, 0)\<rparr>) [1, 2] G_parallel)
       = Inr (fig, ax) \<and>
     ax_collections ax = [edges_lc, route_lc] \<and> ax_scatters ax = [nodes_sc, markers_sc] \<and>
     lc_zorder edges_lc = 2 \<and> sc_zorder nodes_sc = 1 \<and> lc_zorder route_lc = 3 \<and>
     sc_zorder markers_sc = 4"
proof -
  let ?r = "plot_graph_route_defaults\<lparr>bbox := Some (2, 0, 1, 0)\<rparr>"
  obtain fig ax where 1: "fst (plot_graph_route ?r [1, 2] G_parallel) = Inr (fig, ax)"
    using route_parallel_runs by blast
  have "node_zorder ?r = 1" by (simp add: plot_graph_route_defaults_def)
  with layer_zorders [of ?r "[1, 2]" G_parallel fig ax] 1 show ?thesis by fastforce
qed

section \<open>A route step without an edge\<close>





















section \<open>Street widths\<close>

lemma street_type_of_cases:
  "highway data = HList (h # hs) \<Longrightarrow> street_type_of data = Inr h"
  "highway data = HList [] \<Longrightarrow> street_type_of data = Inl IndexError"
  "highway data = Scalar s \<Longrightarrow> street_type_of data = Inr s"
  by (simp_all add: street_type_of_def py_first_def)

lemma street_width_cases:
  "street_type_of data = Inr t \<Longrightarrow> map_of widths_dict t = Some w \<Longrightarrow>
     street_width widths_dict dw data = Inr w"
  "street_type_of data = Inr t \<Longrightarrow> map_of widths_dict t = None \<Longrightarrow>
     street_width widths_dict dw data = Inr dw"
  by (simp_all add: street_width_def getitem_def)

lemma figure_ground_opts_width [simp]:
  "edge_linewidth (figure_ground_opts fopts bb ws fname) = PerLine ws"
  by (simp add: figure_ground_opts_def)

lemma plot_figure_ground_widths:
  assumes "plot_figure_ground C fopts = Inr (fig, ax)"
  shows "\<exists>G lc ws.
           (case address fopts of
              Some a \<Rightarrow>
                G = project_graph C
                      (fst (graph_from_address C a (dist fopts * 1.2) (network_type fopts)))
            | None \<Rightarrow>
                (case point fopts of
                   Some p \<Rightarrow>
                     G = project_graph C (graph_from_point C p (dist fopts * 1.2) (network_type fopts))
                 | None \<Rightarrow> False)) \<and>
           ax_collections ax = [lc] \<and> lc_linewidths lc = PerLine ws \<and>
           list_all2 (\<lambda>(u, v, key, data) w.
                street_width (case street_widths fopts of None \<Rightarrow> default_street_widths | Some d \<Rightarrow> d)
                  (default_width fopts) data = Inr w)
             (edges_of G) ws"
proof -
  let ?d = "case street_widths fopts of None \<Rightarrow> default_street_widths | Some d \<Rightarrow> d"
  let ?f = "\<lambda>(u :: nid, v :: nid, key :: nat, data). street_width ?d (default_width fopts) data"
  have main: "\<exists>lc ws. ax_collections ax = [lc] \<and> lc_linewidths lc = PerLine ws \<and>
                list_all2 (\<lambda>x w. ?f x = Inr w) (edges_of G) ws"
    if run: "fst (pbind G_edges (\<lambda>es.
              pbind (plift (collect ?f es)) (\<lambda>edge_linewidths.
              pbind (plot_graph (figure_ground_opts fopts bb edge_linewidths fname))
                (\<lambda>(fig, ax). preturn (fig, ax\<lparr>ax_aspect_equal := True\<rparr>)))) G) = Inr (fig, ax)"
    for G bb fname
  proof (cases "collect ?f (edges_of G)")
    case (Inl e)
    with run show ?thesis by (simp add: pbind_def plift_def praise_def)
  next
    case (Inr ws)
    let ?o = "figure_ground_opts fopts bb ws fname"
    have pg: "plot_graph ?o G = (fst (plot_graph ?o G), G)"
      by (rule reads_only_eq) (rule reads_only_plot_graph)
    show ?thesis
    proof (cases "fst (plot_graph ?o G)")
      case (Inl e)
      with pg have "plot_graph ?o G = (Inl e, G)" by simp
      with run Inr show ?thesis by (simp add: pbind_def plift_def preturn_def)
    next
      case r: (Inr figax)
      obtain fig0 ax0 where figax: "figax = (fig0, ax0)" by (cases figax) auto
      with pg r have "plot_graph ?o G = (Inr (fig0, ax0), G)" by simp
      with run Inr have ax: "ax = ax0\<lparr>ax_aspect_equal := True\<rparr>"
        by (simp add: pbind_def plift_def preturn_def)
      from r figax have "fst (plot_graph ?o G) = Inr (fig0, ax0)" by simp
      from plot_graph_layers [OF this] obtain lc where
        "ax_collections ax0 = [lc]" "lc_linewidths lc = PerLine ws"
        by force
      moreover from Inr have "list_all2 (\<lambda>x w. ?f x = Inr w) (edges_of G) ws"
        by (simp add: collect_Inr_iff)
      ultimately show ?thesis using ax by auto
    qed
  qed
  have conv: "list_all2 (\<lambda>x w. ?f x = Inr w) es ws \<longleftrightarrow>
              list_all2 (\<lambda>(u, v, key, data) w. street_width ?d (default_width fopts) data = Inr w) es ws"
    for es ws
    by (rule arg_cong [where f = "\<lambda>P. list_all2 P es ws"]) auto
  show ?thesis
  proof (cases "address fopts")
    case (Some a)
    obtain G0 pt where g: "graph_from_address C a (dist fopts * 1.2) (network_type fopts) = (G0, pt)"
      by (cases "graph_from_address C a (dist fopts * 1.2) (network_type fopts)") auto
    with assms Some main [of "bbox_from_point C pt (dist fopts)" _ "project_graph C G0"]
    show ?thesis
      by (simp add: plot_figure_ground_def Let_def conv)
  next
    case None
    show ?thesis
    proof (cases "point fopts")
      case n: None
      with None assms show ?thesis by (simp add: plot_figure_ground_def)
    next
      case (Some p)
      with assms None
        main [of "bbox_from_point C p (dist fopts)" _
                 "project_graph C (graph_from_point C p (dist fopts * 1.2) (network_type fopts))"]
      show ?thesis
        by (simp add: plot_figure_ground_def Let_def conv)
    qed
  qed
qed


text \<open>
  C8. The street type of an edge is the first element of its \<open>highway\<close> value when that
  is a list, and the value itself otherwise. The width of the edge is the value of
  \<open>street_widths\<close> at that type when the type is a key of it, and \<open>default_width\<close> when it
  is not. In a figure returned by \<open>plot_figure_ground\<close> the edge layer has one width per
  edge of the fetched graph, each of them this width (with the built-in table when no
  \<open>street_widths\<close> is passed).
\<close>

theorem street_width_classified:
  "(highway data = HList (h # hs) \<longrightarrow> street_type_of data = Inr h) \<and>
   (highway data = Scalar s \<longrightarrow> street_type_of data = Inr s) \<and>
   (street_type_of data = Inr t \<longrightarrow>
      (\<forall>w. map_of widths_dict t = Some w \<longrightarrow> street_width widths_dict dw data = Inr w) \<and>
      (map_of widths_dict t = None \<longrightarrow> street_width widths_dict dw data = Inr dw)) \<and>
   (plot_figure_ground C fopts = Inr (fig, ax) \<longrightarrow>
      (\<exists>G lc ws.
         (case address fopts of
            Some a \<Rightarrow>
              G = project_graph C
                    (fst (graph_from_address C a (dist fopts * 1.2) (network_type fopts)))
          | None \<Rightarrow>
              (case point fopts of
                 Some p \<Rightarrow>
                   G = project_graph C (graph_from_point C p (dist fopts * 1.2) (network_type fopts))
               | None \<Rightarrow> False)) \<and>
         ax_collections ax = [lc] \<and> lc_linewidths lc = PerLine ws \<and>
         list_all2 (\<lambda>(u, v, key, data) w.
              street_width (case street_widths fopts of None \<Rightarrow> default_street_widths | Some d \<Rightarrow> d)
                (default_width fopts) data = Inr w)
           (edges_of G) ws))"
  using street_type_of_cases(1,3) [of data] street_width_cases [of data t widths_dict]
    plot_figure_ground_widths [of C fopts fig ax]
  by blast

lemma figure_ground_example_runs:
  "\<exists>fig ax. plot_figure_ground collaborators_example
      (plot_figure_ground_defaults\<lparr>point := Some (0, 0)\<rparr>) = Inr (fig, ax)"
  by (simp add: plot_figure_ground_def collaborators_example_def plot_figure_ground_defaults_def
        figure_ground_opts_def default_street_widths_def street_width_def street_type_of_def
        eval_defs)

text \<open>
  The two parallel edges under the built-in table: \<open>['residential', 'service']\<close> counts
  as \<open>residential\<close>, which the table does not have, and gets the default 4; \<open>motorway\<close>
  gets 6.
\<close>

theorem street_width_classified_witness:
  "street_type_of long_straight = Inr ''residential'' \<and>
   street_width default_street_widths 4 long_straight = Inr 4 \<and>
   street_type_of short_curved = Inr ''motorway'' \<and>
   street_width default_street_widths 4 short_curved = Inr 6 \<and>
   (\<exists>fig ax lc. plot_figure_ground collaborators_example
        (plot_figure_ground_defaults\<lparr>point := Some (0, 0)\<rparr>) = Inr (fig, ax) \<and>
      ax_collections ax = [lc] \<and> lc_linewidths lc = PerLine [4, 6])"
proof -
  let ?f = "plot_figure_ground_defaults\<lparr>point := Some (0, 0)\<rparr>"
  obtain fig ax where run: "plot_figure_ground collaborators_example ?f = Inr (fig, ax)"
    using figure_ground_example_runs by blast
  have hw: "highway long_straight = HList (''residential'' # [''service''])"
    "highway short_curved = Scalar ''motorway''"
    by (simp_all add: long_straight_def short_curved_def)
  have m: "map_of default_street_widths ''residential'' = None"
    "map_of default_street_widths ''motorway'' = Some 6"
    by (simp_all add: default_street_widths_def)
  from street_width_classified [of long_straight "''residential''" "[''service'']" "''none''"
      "''residential''" default_street_widths 4 collaborators_example ?f fig ax] hw(1) m(1)
  have 1: "street_type_of long_straight = Inr ''residential''"
    "street_width default_street_widths 4 long_straight = Inr 4"
    by simp_all
  from street_width_classified [of short_curved "''none''" "[]" "''motorway''"
      "''motorway''" default_street_widths 4 collaborators_example ?f fig ax] hw(2) m(2)
  have 2: "street_type_of short_curved = Inr ''motorway''"
    "street_width default_street_widths 4 short_curved = Inr 6"
    by simp_all
  have e: "edges_of G_parallel = [(1, 2, 0, long_straight), (1, 2, 1, short_curved)]"
    by (simp add: edges_of_def G_parallel_def)
  have f: "address ?f = None" "point ?f = Some (0, 0)" "street_widths ?f = None" "default_width ?f = 4"
    by (simp_all add: plot_figure_ground_defaults_def)
  have g: "project_graph collaborators_example (graph_from_point collaborators_example p d t) = G_parallel"
    for p d t
    by (simp add: collaborators_example_def)
  from street_width_classified [of long_straight "''residential''" "[''service'']" "''none''"
      "''residential''" default_street_widths 4 collaborators_example ?f fig ax] run
  have "\<exists>lc. ax_collections ax = [lc] \<and> lc_linewidths lc = PerLine [4, 6]"
    by (auto simp: list_all2_Cons1 1 2 e f g)
  with 1 2 run show ?thesis by blast
qed


section \<open>Origin and destination markers\<close>

text \<open>
  C10. When exactly one of \<open>origin_point\<close> and \<open>destination_point\<close> is passed, the point
  that was passed has no effect: the call behaves as the call without any point. The
  markers of a returned figure are at the coordinates of the first and the last node of
  the route and have the colour \<open>orig_dest_node_color\<close>.
\<close>

theorem single_override_point_ignored:
  "(origin_point opts = None) \<noteq> (destination_point opts = None) \<longrightarrow>
     plot_graph_route opts route G =
       plot_graph_route (opts\<lparr>origin_point := None, destination_point := None\<rparr>) route G \<and>
     (fst (plot_graph_route opts route G) = Inr (fig, ax) \<longrightarrow>
        (\<exists>nodes_sc markers_sc first_node last_node n1 n2.
           ax_scatters ax = [nodes_sc, markers_sc] \<and>
           py_first route = Inr first_node \<and> py_last route = Inr last_node \<and>
           map_of (node G) first_node = Some n1 \<and> map_of (node G) last_node = Some n2 \<and>
           sc_x markers_sc = [node_x n1, node_x n2] \<and> sc_y markers_sc = [node_y n1, node_y n2] \<and>
           sc_c markers_sc = orig_dest_node_color opts))"
proof (intro impI conjI)
  assume x: "(origin_point opts = None) \<noteq> (destination_point opts = None)"
  then have one: "origin_point opts = None \<or> destination_point opts = None" by auto
  then show "plot_graph_route opts route G =
       plot_graph_route (opts\<lparr>origin_point := None, destination_point := None\<rparr>) route G"
    by (simp add: plot_graph_route_def)
  assume "fst (plot_graph_route opts route G) = Inr (fig, ax)"
  from plot_graph_route_layers [OF this] one obtain fig0 ax0 marker first_node last_node n1 n2 where
    bg: "fst (plot_graph (background_opts opts) G) = Inr (fig0, ax0)"
    and m: "ax_scatters ax = ax_scatters ax0 @ [marker]"
    "py_first route = Inr first_node" "py_last route = Inr last_node"
    "map_of (node G) first_node = Some n1" "map_of (node G) last_node = Some n2"
    "sc_x marker = [node_x n1, node_x n2]" "sc_y marker = [node_y n1, node_y n2]"
    "sc_c marker = orig_dest_node_color opts"
    by blast
  from plot_graph_layers [OF bg] obtain sc where "ax_scatters ax0 = [sc]" by blast
  with m show "\<exists>nodes_sc markers_sc first_node last_node n1 n2.
           ax_scatters ax = [nodes_sc, markers_sc] \<and>
           py_first route = Inr first_node \<and> py_last route = Inr last_node \<and>
           map_of (node G) first_node = Some n1 \<and> map_of (node G) last_node = Some n2 \<and>
           sc_x markers_sc = [node_x n1, node_x n2] \<and> sc_y markers_sc = [node_y n1, node_y n2] \<and>
           sc_c markers_sc = orig_dest_node_color opts"
    by simp
qed


text \<open>
  The route \<open>[0, 1, 2]\<close> on the four-node loop with only the origin point passed, as
  \<open>(5, 5)\<close>: the markers are at the nodes, \<open>(0, 0)\<close> and \<open>(1, 1)\<close>, in the node colour.
\<close>

theorem single_override_point_ignored_witness:
  "\<exists>fig ax nodes_sc markers_sc.
     fst (plot_graph_route
       (plot_graph_route_defaults\<lparr>bbox := Some (1, 0, 1, 0), use_geom := False,
          origin_point := Some (5, 5)\<rparr>) [0, 1, 2] G_square) = Inr (fig, ax) \<and>
     ax_scatters ax = [nodes_sc, markers_sc] \<and>
     sc_x markers_sc = [0, 1] \<and> sc_y markers_sc = [0, 1] \<and> sc_c markers_sc = ''r''"
proof -
  let ?r = "plot_graph_route_defaults\<lparr>bbox := Some (1, 0, 1, 0), use_geom := False,
          origin_point := Some (5, 5)\<rparr>"
  obtain fig ax where 1: "fst (plot_graph_route ?r [0, 1, 2] G_square) = Inr (fig, ax)"
    using route_square_runs by blast
  have x: "(origin_point ?r = None) \<noteq> (destination_point ?r = None)"
    by (simp add: plot_graph_route_defaults_def)
  from single_override_point_ignored [of ?r "[0, 1, 2]" G_square fig ax] x 1
  obtain nodes_sc markers_sc first_node last_node n1 n2 where
    m: "ax_scatters ax = [nodes_sc, markers_sc]"
      "py_first [0, 1, 2] = Inr first_node" "py_last [0, 1, 2] = Inr last_node"
      "map_of (node G_square) first_node = Some n1" "map_of (node G_square) last_node = Some n2"
      "sc_x markers_sc = [node_x n1, node_x n2]" "sc_y markers_sc = [node_y n1, node_y n2]"
      "sc_c markers_sc = orig_dest_node_color ?r"
    by blast
  from m(2,3) have "first_node = 0" "last_node = 2" by (simp_all add: py_first_def py_last_def)
  with m(4,5) have "n1 = \<lparr>node_x = 0, node_y = 0\<rparr>" "n2 = \<lparr>node_x = 1, node_y = 1\<rparr>"
    by (simp_all add: G_square_def)
  with m(1,6,7,8) 1 show ?thesis
    by (auto simp: plot_graph_route_defaults_def)
qed

end
